theory Spec2Isabelle
  imports Main "HOL-Library.Sublist"
begin

section \<open>Values and exceptions of the Python program\<close>

text \<open>
  \<^verbatim>\<open>gridpack_manager.py\<close> works on what \<^verbatim>\<open>json.load\<close> returns. A JSON object becomes a
  Python dict: here an association list in insertion order, read with \<open>map_of\<close>.
  A number is carried as an integer; the program never looks at the value of a number.
  A Python string is a list of characters, one \<open>char\<close> for each code point; the model
  has the 256 characters of \<open>char\<close>. The bytes of a file are a list of \<open>char\<close> as well,
  and become a string only by decoding.
\<close>

datatype json =
    JNull
  | JBool bool
  | JNum int
  | JStr string
  | JArr "json list"
  | JObj "(string \<times> json) list"

text \<open>
  Every way the program stops early is a value: \<open>SysExit msg\<close> is \<^verbatim>\<open>sys.exit(msg)\<close>,
  the others are exceptions. \<open>OSError\<close> stands for the whole family raised by
  file operations (\<^verbatim>\<open>FileNotFoundError\<close>, \<^verbatim>\<open>NotADirectoryError\<close>, \<^verbatim>\<open>IsADirectoryError\<close>,
  \<^verbatim>\<open>FileExistsError\<close>). The program catches \<^verbatim>\<open>JSONDecodeError\<close> in one place and nothing
  else.
\<close>

datatype py_error =
    SysExit string
  | KeyError string
  | TypeError
  | AttributeError
  | OSError
  | JSONDecodeError
  | UnicodeDecodeError
  | UnicodeEncodeError
  | RecursionError

definition and_then :: "py_error + 'a \<Rightarrow> ('a \<Rightarrow> py_error + 'b) \<Rightarrow> py_error + 'b" where
  "and_then m k = (case m of Inl e \<Rightarrow> Inl e | Inr v \<Rightarrow> k v)"

text \<open>\<^verbatim>\<open>sub in s\<close> on two strings: \<open>sub\<close> occurs in \<open>s\<close>.\<close>

fun contains :: "string \<Rightarrow> string \<Rightarrow> bool" where
  "contains sub [] = (sub = [])"
| "contains sub (c # cs) = (prefix sub (c # cs) \<or> contains sub cs)"

text \<open>
  \<^verbatim>\<open>key in container\<close> for a string key: membership among a dict's keys, among a list's
  elements, substring test on a string, \<^verbatim>\<open>TypeError\<close> on anything else.
\<close>

definition py_in :: "string \<Rightarrow> json \<Rightarrow> py_error + bool" where
  "py_in key container =
     (case container of
        JObj kvs \<Rightarrow> Inr (key \<in> set (map fst kvs))
      | JArr xs \<Rightarrow> Inr (JStr key \<in> set xs)
      | JStr s \<Rightarrow> Inr (contains key s)
      | _ \<Rightarrow> Inl TypeError)"

text \<open>\<^verbatim>\<open>container[key]\<close> for a string key: only a dict can be indexed by a string.\<close>

definition py_getitem :: "json \<Rightarrow> string \<Rightarrow> py_error + json" where
  "py_getitem container key =
     (case container of
        JObj kvs \<Rightarrow> (case map_of kvs key of None \<Rightarrow> Inl (KeyError key) | Some v \<Rightarrow> Inr v)
      | _ \<Rightarrow> Inl TypeError)"


definition py_keys :: "json \<Rightarrow> py_error + string list" where
  "py_keys d = (case d of JObj kvs \<Rightarrow> Inr (map fst kvs) | _ \<Rightarrow> Inl AttributeError)"

definition py_get :: "json \<Rightarrow> string \<Rightarrow> json \<Rightarrow> py_error + json" where
  "py_get d key dflt =
     (case d of
        JObj kvs \<Rightarrow> (case map_of kvs key of None \<Rightarrow> Inr dflt | Some v \<Rightarrow> Inr v)
      | _ \<Rightarrow> Inl AttributeError)"

text \<open>
  \<^verbatim>\<open>for x in v\<close>: the elements of a list, the keys of a dict, the characters of a string;
  \<^verbatim>\<open>TypeError\<close> on anything else.
\<close>

definition py_iter :: "json \<Rightarrow> py_error + json list" where
  "py_iter v =
     (case v of
        JArr xs \<Rightarrow> Inr xs
      | JObj kvs \<Rightarrow> Inr (map (\<lambda>kv. JStr (fst kv)) kvs)
      | JStr s \<Rightarrow> Inr (map (\<lambda>c. JStr [c]) s)
      | _ \<Rightarrow> Inl TypeError)"

text \<open>
  \<^verbatim>\<open>s.replace(old, new)\<close>: the occurrences of \<open>old\<close> are found from the left and do not
  overlap. With an empty \<open>old\<close>, Python puts \<open>new\<close> before every character and at the end.
\<close>

function replace_from :: "string \<Rightarrow> string \<Rightarrow> string \<Rightarrow> string" where
  "replace_from old new [] = []"
| "replace_from old new (c # cs) =
     (if old \<noteq> [] \<and> prefix old (c # cs)
      then new @ replace_from old new (drop (length old) (c # cs))
      else c # replace_from old new cs)"
  by pat_completeness auto
termination
  by (relation "measure (\<lambda>(old, new, s). length s)") auto

definition py_replace :: "string \<Rightarrow> string \<Rightarrow> string \<Rightarrow> string" where
  "py_replace s old new =
     (if old = [] then new @ concat (map (\<lambda>c. c # new) s) else replace_from old new s)"

section \<open>The schema validator\<close>











section \<open>Paths and the file system\<close>

text \<open>
  \<^verbatim>\<open>os.path.join\<close> (POSIX): a component that starts with a slash discards what came
  before it; otherwise one slash separates the components. Every component must be a
  string, else \<^verbatim>\<open>TypeError\<close>.
\<close>

definition join2 :: "string \<Rightarrow> string \<Rightarrow> string" where
  "join2 path b =
     (if prefix ''/'' b then b
      else if path = [] \<or> suffix ''/'' path then path @ b
      else path @ ''/'' @ b)"

definition path_join :: "string \<Rightarrow> string list \<Rightarrow> string" where
  "path_join a ps = foldl join2 a ps"

fun strs_of :: "json list \<Rightarrow> string list option" where
  "strs_of [] = Some []"
| "strs_of (JStr s # rest) = (case strs_of rest of None \<Rightarrow> None | Some ss \<Rightarrow> Some (s # ss))"
| "strs_of (_ # rest) = None"

definition py_path_join :: "json \<Rightarrow> json list \<Rightarrow> py_error + string" where
  "py_path_join a ps =
     (case strs_of (a # ps) of
        Some (s # ss) \<Rightarrow> Inr (path_join s ss)
      | _ \<Rightarrow> Inl TypeError)"

text \<open>The components of a path string, split at every slash.\<close>

fun split_slash :: "string \<Rightarrow> string list" where
  "split_slash [] = [[]]"
| "split_slash (c # cs) =
     (if c = CHR ''/'' then [] # split_slash cs
      else (case split_slash cs of [] \<Rightarrow> [[c]] | part # parts \<Rightarrow> (c # part) # parts))"

fun join_slash :: "string list \<Rightarrow> string" where
  "join_slash [] = []"
| "join_slash [part] = part"
| "join_slash (part # parts) = part @ ''/'' @ join_slash parts"

text \<open>
  The string form of a \<^verbatim>\<open>pathlib\<close> path: empty and \<^verbatim>\<open>.\<close> components are dropped, a root
  of exactly two slashes is kept, and the empty path is written \<^verbatim>\<open>.\<close>.
\<close>

definition pure_path :: "string \<Rightarrow> string" where
  "pure_path s =
     (let root = (if prefix ''//'' s \<and> \<not> prefix ''///'' s then ''//''
                  else if prefix ''/'' s then ''/'' else []);
          body = join_slash (filter (\<lambda>part. part \<noteq> [] \<and> part \<noteq> ''.'') (split_slash s))
      in if root = [] \<and> body = [] then ''.'' else root @ body)"

text \<open>
  The file system is a table from locations (the names from the root down) to entries;
  the root is always a directory. There are no symbolic links, permissions, limits on
  the length of a name or input/output failures, and nobody else changes the table while
  the program runs.
\<close>

type_synonym loc = "string list"

datatype entry = Dir | File string

record fsys =
  cwd :: loc
  tree :: "(loc \<times> entry) list"

definition node :: "fsys \<Rightarrow> loc \<Rightarrow> entry option" where
  "node fs l = (if l = [] then Some Dir else map_of (tree fs) l)"

text \<open>
  Path resolution walks the components: the place reached so far must be a directory
  before the next component is read; empty and \<^verbatim>\<open>.\<close> components stay, \<^verbatim>\<open>..\<close> goes up
  to the parent, which is a directory (the root is its own parent). The location of the
  last component need not exist.
\<close>

fun walk :: "fsys \<Rightarrow> loc \<Rightarrow> string list \<Rightarrow> loc option" where
  "walk fs cur [] = Some cur"
| "walk fs cur (c # cs) =
     (if node fs cur \<noteq> Some Dir then None
      else if c = [] \<or> c = ''.'' then walk fs cur cs
      else if c = ''..''
           then (if node fs (butlast cur) = Some Dir then walk fs (butlast cur) cs else None)
      else walk fs (cur @ [c]) cs)"

definition resolve :: "fsys \<Rightarrow> string \<Rightarrow> loc option" where
  "resolve fs p =
     (if p = [] then None
      else walk fs (if prefix ''/'' p then [] else cwd fs) (split_slash p))"

definition fs_exists :: "fsys \<Rightarrow> string \<Rightarrow> bool" where
  "fs_exists fs p = (case resolve fs p of None \<Rightarrow> False | Some l \<Rightarrow> node fs l \<noteq> None)"

definition fs_isdir :: "fsys \<Rightarrow> string \<Rightarrow> bool" where
  "fs_isdir fs p = (case resolve fs p of None \<Rightarrow> False | Some l \<Rightarrow> node fs l = Some Dir)"

definition fs_isfile :: "fsys \<Rightarrow> string \<Rightarrow> bool" where
  "fs_isfile fs p =
     (case resolve fs p of
        None \<Rightarrow> False
      | Some l \<Rightarrow> (case node fs l of Some (File content) \<Rightarrow> True | _ \<Rightarrow> False))"

text \<open>\<^verbatim>\<open>os.listdir\<close>: the names directly below a directory, in the table's order.\<close>

definition children :: "fsys \<Rightarrow> loc \<Rightarrow> string list" where
  "children fs l =
     remdups (map last (filter (\<lambda>k. k \<noteq> [] \<and> butlast k = l) (map fst (tree fs))))"

definition listdir :: "fsys \<Rightarrow> string \<Rightarrow> py_error + string list" where
  "listdir fs p =
     (case resolve fs p of
        None \<Rightarrow> Inl OSError
      | Some l \<Rightarrow> (if node fs l = Some Dir then Inr (children fs l) else Inl OSError))"

text \<open>The bytes of a file.\<close>

definition read_file :: "fsys \<Rightarrow> string \<Rightarrow> py_error + string" where
  "read_file fs p =
     (case resolve fs p of
        None \<Rightarrow> Inl OSError
      | Some l \<Rightarrow> (case node fs l of Some (File content) \<Rightarrow> Inr content | _ \<Rightarrow> Inl OSError))"

text \<open>
  The program opens its files in text mode. The codec is the platform's and is a
  parameter: \<open>decode\<close> turns bytes into a string and \<open>encode\<close> a string into bytes, each
  \<open>None\<close> where Python raises \<^verbatim>\<open>UnicodeDecodeError\<close> or \<^verbatim>\<open>UnicodeEncodeError\<close>. On reading,
  a carriage return followed by a line feed, and a carriage return alone, become one line
  feed; on writing (POSIX) a line feed stays a line feed.
\<close>

fun universal_newlines :: "string \<Rightarrow> string" where
  "universal_newlines [] = []"
| "universal_newlines [c] = [if c = CHR 0x0D then CHR 0x0A else c]"
| "universal_newlines (c # d # cs) =
     (if c = CHR 0x0D \<and> d = CHR 0x0A then CHR 0x0A # universal_newlines cs
      else if c = CHR 0x0D then CHR 0x0A # universal_newlines (d # cs)
      else c # universal_newlines (d # cs))"

text \<open>\<^verbatim>\<open>open(p).read()\<close>.\<close>

definition read_text :: "(string \<Rightarrow> string option) \<Rightarrow> fsys \<Rightarrow> string \<Rightarrow> py_error + string" where
  "read_text decode fs p =
     and_then (read_file fs p) (\<lambda>bytes.
       case decode bytes of
         None \<Rightarrow> Inl UnicodeDecodeError
       | Some text \<Rightarrow> Inr (universal_newlines text))"

text \<open>
  \<^verbatim>\<open>open(p, 'w').write(text)\<close>: opening creates the file, or empties it; a text that cannot
  be encoded leaves it empty.
\<close>

definition write_text ::
  "(string \<Rightarrow> string option) \<Rightarrow> fsys \<Rightarrow> string \<Rightarrow> string \<Rightarrow> py_error option \<times> fsys" where
  "write_text encode fs p text =
     (case resolve fs p of
        None \<Rightarrow> (Some OSError, fs)
      | Some l \<Rightarrow>
          (if node fs l = Some Dir then (Some OSError, fs)
           else (case encode text of
                   None \<Rightarrow> (Some UnicodeEncodeError, fs\<lparr>tree := (l, File []) # tree fs\<rparr>)
                 | Some bytes \<Rightarrow> (None, fs\<lparr>tree := (l, File bytes) # tree fs\<rparr>))))"

text \<open>
  \<^verbatim>\<open>os.makedirs(p, exist_ok=True)\<close>: the missing directories along the path are created
  from left to right; a component that is a regular file is an error. The directories
  created before an error stay.
\<close>

fun make_walk :: "fsys \<Rightarrow> loc \<Rightarrow> string list \<Rightarrow> py_error option \<times> fsys" where
  "make_walk fs cur [] = (None, fs)"
| "make_walk fs cur (c # cs) =
     (if node fs cur \<noteq> Some Dir then (Some OSError, fs)
      else if c = [] \<or> c = ''.'' then make_walk fs cur cs
      else if c = ''..''
           then (if node fs (butlast cur) = Some Dir then make_walk fs (butlast cur) cs
                 else (Some OSError, fs))
      else (case node fs (cur @ [c]) of
              None \<Rightarrow> make_walk (fs\<lparr>tree := (cur @ [c], Dir) # tree fs\<rparr>) (cur @ [c]) cs
            | Some Dir \<Rightarrow> make_walk fs (cur @ [c]) cs
            | Some (File content) \<Rightarrow> (Some OSError, fs)))"

definition makedirs :: "fsys \<Rightarrow> string \<Rightarrow> py_error option \<times> fsys" where
  "makedirs fs p =
     (if p = [] then (Some OSError, fs)
      else make_walk fs (if prefix ''/'' p then [] else cwd fs) (split_slash p))"

section \<open>Output and control flow\<close>

text \<open>
  One constructor for each \<^verbatim>\<open>print\<close> of the actions modelled below. Lines that list a
  Python set carry the set, since the order in which Python writes it is not fixed;
  \<open>JsonError\<close> leaves out the parser's own message.
\<close>

datatype out_line =
    Text string
  | WouldCreate string
  | AllDirectoriesExist
  | RunWithDoitDirs nat
  | CreatingCardDirectory string
  | SkeletonMapping string string
  | CardDirectoryCreated string
  | RunWithDoitCards
  | MissingCard string
  | MissingKeys string "string set"
  | UnknownKeys string "string set"
  | JsonError string
  | CheckedSummary nat nat

record world =
  files :: fsys
  stdout :: "out_line list"

definition say :: "out_line \<Rightarrow> world \<Rightarrow> world" where
  "say line w = w\<lparr>stdout := stdout w @ [line]\<rparr>"

text \<open>
  A statement that may raise, inside code that carries a state: on an exception the
  state reached so far is kept, so that what was already written stays written.
\<close>

definition attempt :: "py_error + 'a \<Rightarrow> 's \<Rightarrow> ('a \<Rightarrow> py_error option \<times> 's) \<Rightarrow> py_error option \<times> 's" where
  "attempt m s k = (case m of Inl e \<Rightarrow> (Some e, s) | Inr v \<Rightarrow> k v)"

text \<open>\<^verbatim>\<open>for x in xs: body\<close>, stopping at the first exception.\<close>

fun for_each :: "('a \<Rightarrow> 's \<Rightarrow> py_error option \<times> 's) \<Rightarrow> 'a list \<Rightarrow> 's \<Rightarrow> py_error option \<times> 's" where
  "for_each body [] s = (None, s)"
| "for_each body (x # xs) s =
     (case body x s of
        (Some e, s') \<Rightarrow> (Some e, s')
      | (None, s') \<Rightarrow> for_each body xs s')"

section \<open>The configuration loader\<close>

text \<open>
  \<^verbatim>\<open>load_config\<close>. Besides the codec, two things come from outside the program and are
  parameters: \<open>json_loads\<close> is the JSON parser on a string, with the exception it raises
  (\<^verbatim>\<open>JSONDecodeError\<close>, or \<^verbatim>\<open>RecursionError\<close> on a document nested too deeply), and
  \<open>script_dir\<close> is the directory of the script, \<^verbatim>\<open>Path(__file__).parent\<close>.
\<close>

definition load_config ::
  "(string \<Rightarrow> string option) \<Rightarrow> (string \<Rightarrow> py_error + json) \<Rightarrow> string \<Rightarrow> string \<Rightarrow> fsys \<Rightarrow> py_error + json" where
  "load_config decode json_loads script_dir config_path fs =
     (let config_file = pure_path (path_join script_dir [config_path]) in
      if \<not> fs_exists fs config_file
      then Inl (SysExit (''ERROR: Config file not found: '' @ config_file))
      else and_then (read_text decode fs config_file) json_loads)"

section \<open>Creating directories\<close>

text \<open>
  The body of the innermost loop of \<^verbatim>\<open>make_dirs\<close>; the state is the list \<^verbatim>\<open>created\<close>
  and the world.
\<close>

definition make_dirs_body ::
  "bool \<Rightarrow> json \<Rightarrow> string \<Rightarrow> string \<Rightarrow> json \<Rightarrow> string list \<times> world \<Rightarrow> py_error option \<times> string list \<times> world" where
  "make_dirs_body doit base_path campaign generator process s =
     (case s of (created, w) \<Rightarrow>
        attempt (py_path_join base_path [JStr campaign, JStr generator, process]) s (\<lambda>fullpath.
          if \<not> fs_exists (files w) fullpath
          then (let created1 = created @ [fullpath];
                    w1 = say (WouldCreate fullpath) w
                in if doit
                   then (case makedirs (files w1) fullpath of
                           (r, fs') \<Rightarrow> (r, created1, w1\<lparr>files := fs'\<rparr>))
                   else (None, created1, w1))
          else (None, s)))"

definition make_dirs_loops ::
  "bool \<Rightarrow> json \<Rightarrow> string list \<Rightarrow> string list \<Rightarrow> json \<Rightarrow> string list \<times> world \<Rightarrow> py_error option \<times> string list \<times> world" where
  "make_dirs_loops doit base_path campaigns generators processes =
     for_each (\<lambda>campaign.
       for_each (\<lambda>generator s.
         attempt (py_iter processes) s (\<lambda>ps.
           for_each (make_dirs_body doit base_path campaign generator) ps s))
       generators)
     campaigns"

definition make_dirs :: "json \<Rightarrow> bool \<Rightarrow> world \<Rightarrow> py_error option \<times> world" where
  "make_dirs config doit w =
     attempt (py_getitem config ''paths'') w (\<lambda>paths.
     attempt (py_getitem paths ''eos_base_path'') w (\<lambda>base_path.
     attempt (py_getitem config ''generators'') w (\<lambda>gens.
     attempt (py_keys gens) w (\<lambda>generators.
     attempt (py_getitem config ''campaigns'') w (\<lambda>camps.
     attempt (py_keys camps) w (\<lambda>campaigns.
     attempt (py_getitem config ''physics_processes'') w (\<lambda>processes.
       case make_dirs_loops doit base_path campaigns generators processes ([], w) of
         (Some e, created, w') \<Rightarrow> (Some e, w')
       | (None, created, w') \<Rightarrow>
           (None,
            if created = [] then say AllDirectoriesExist w'
            else if \<not> doit then say (RunWithDoitDirs (length created)) w'
            else w'))))))))"

section \<open>Creating cards from skeletons\<close>

text \<open>The first loop of \<^verbatim>\<open>make_cards\<close> prints the plan, the second one copies.\<close>

definition plan_body :: "string \<Rightarrow> string \<Rightarrow> string \<Rightarrow> json \<Rightarrow> world \<Rightarrow> py_error option \<times> world" where
  "plan_body skeleton_path target_path dataset_name skel_file w =
     attempt (py_path_join (JStr skeleton_path) [skel_file]) w (\<lambda>src.
       case skel_file of
         JStr name \<Rightarrow>
           (let dst_name = py_replace name ''skeleton'' dataset_name;
                dst = path_join target_path [dst_name]
            in (None, say (SkeletonMapping name dst_name) w))
       | _ \<Rightarrow> (Some AttributeError, w))"

definition copy_body ::
  "(string \<Rightarrow> string option) \<Rightarrow> (string \<Rightarrow> string option) \<Rightarrow> string \<Rightarrow> string \<Rightarrow> string \<Rightarrow> json \<Rightarrow> world \<Rightarrow> py_error option \<times> world" where
  "copy_body decode encode skeleton_path target_path dataset_name skel_file w =
     attempt (py_path_join (JStr skeleton_path) [skel_file]) w (\<lambda>src.
       case skel_file of
         JStr name \<Rightarrow>
           (let dst_name = py_replace name ''skeleton'' dataset_name;
                dst = path_join target_path [dst_name]
            in attempt (read_text decode (files w) src) w (\<lambda>content.
               let content1 = py_replace content ''$process'' dataset_name
               in (case write_text encode (files w) dst content1 of
                     (r, fs') \<Rightarrow> (r, w\<lparr>files := fs'\<rparr>))))
       | _ \<Rightarrow> (Some AttributeError, w))"

definition make_cards ::
  "(string \<Rightarrow> string option) \<Rightarrow> (string \<Rightarrow> string option) \<Rightarrow> json \<Rightarrow> string \<Rightarrow> string \<Rightarrow> string \<Rightarrow> bool \<Rightarrow> world \<Rightarrow> py_error option \<times> world" where
  "make_cards decode encode config generator process dataset_name doit w =
     attempt (py_getitem config ''generators'') w (\<lambda>gens.
     attempt (py_in generator gens) w (\<lambda>known.
     if \<not> known then (Some (SysExit (''ERROR: Unknown generator: '' @ generator)), w)
     else
     attempt (py_getitem config ''paths'') w (\<lambda>paths.
     attempt (py_getitem paths ''cards_dir'') w (\<lambda>cards_dir.
     attempt (py_getitem paths ''skeletons_dir'') w (\<lambda>skeletons_dir.
     attempt (py_path_join cards_dir [JStr generator, JStr process, JStr dataset_name]) w (\<lambda>target_path.
     attempt (py_path_join skeletons_dir [JStr generator]) w (\<lambda>skeleton_path.
     if fs_exists (files w) target_path
     then (Some (SysExit (''ERROR: Path already exists: '' @ target_path)), w)
     else if \<not> fs_exists (files w) skeleton_path
     then (Some (SysExit (''ERROR: Skeleton path not found: '' @ skeleton_path)), w)
     else
     attempt (py_getitem gens generator) w (\<lambda>gen_info.
     attempt (py_get gen_info ''skeleton_files'' (JArr [])) w (\<lambda>skeleton_files.
     let w1 = say (CreatingCardDirectory target_path) w in
     attempt (py_iter skeleton_files) w1 (\<lambda>skels.
     case for_each (plan_body skeleton_path target_path dataset_name) skels w1 of
       (Some e, w2) \<Rightarrow> (Some e, w2)
     | (None, w2) \<Rightarrow>
         if doit
         then (case makedirs (files w2) target_path of
                 (Some e, fs') \<Rightarrow> (Some e, w2\<lparr>files := fs'\<rparr>)
               | (None, fs') \<Rightarrow>
                   (case for_each (copy_body decode encode skeleton_path target_path dataset_name) skels
                           (w2\<lparr>files := fs'\<rparr>) of
                      (Some e, w3) \<Rightarrow> (Some e, w3)
                    | (None, w3) \<Rightarrow> (None, say (CardDirectoryCreated target_path) w3)))
         else (None, say RunWithDoitCards w2)))))))))))"

section \<open>Checking cards\<close>

record cc_state =
  cc_errors :: nat
  cc_checked :: nat
  cc_printed :: "out_line list"

definition cc_say :: "out_line \<Rightarrow> cc_state \<Rightarrow> cc_state" where
  "cc_say line st = st\<lparr>cc_printed := cc_printed st @ [line]\<rparr>"

definition cc_error :: "cc_state \<Rightarrow> cc_state" where
  "cc_error st = st\<lparr>cc_errors := cc_errors st + 1\<rparr>"

text \<open>
  The body of the loop over the entries of a process directory. Of the exceptions of
  reading and parsing only \<^verbatim>\<open>JSONDecodeError\<close> is caught; any other exception leaves the
  loop.
\<close>

definition check_dataset ::
  "(string \<Rightarrow> string option) \<Rightarrow> (string \<Rightarrow> py_error + json) \<Rightarrow> fsys \<Rightarrow> string set \<Rightarrow> string set \<Rightarrow> string \<Rightarrow> string \<Rightarrow> cc_state \<Rightarrow> py_error option \<times> cc_state" where
  "check_dataset decode json_loads fs mandatory_keys optional_keys process_path dataset st =
     (let dataset_path = path_join process_path [dataset] in
      if \<not> fs_isdir fs dataset_path then (None, st)
      else
      let json_path = path_join dataset_path [dataset @ ''.json''] in
      if \<not> fs_isfile fs json_path then (None, cc_error (cc_say (MissingCard json_path) st))
      else
      let st1 = st\<lparr>cc_checked := cc_checked st + 1\<rparr> in
      attempt (read_text decode fs json_path) st1 (\<lambda>text.
        case json_loads text of
          Inl e \<Rightarrow>
            (if e = JSONDecodeError then (None, cc_error (cc_say (JsonError json_path) st1))
             else (Some e, st1))
        | Inr data \<Rightarrow>
            attempt (py_keys data) st1 (\<lambda>ks.
              let attributes = set ks;
                  missing = mandatory_keys - attributes;
                  unknown = attributes - mandatory_keys - optional_keys;
                  st2 = (if missing \<noteq> {} then cc_error (cc_say (MissingKeys json_path missing) st1)
                         else st1);
                  st3 = (if unknown \<noteq> {} then cc_say (UnknownKeys json_path unknown) st2
                         else st2)
              in (None, st3))))"

definition check_process ::
  "(string \<Rightarrow> string option) \<Rightarrow> (string \<Rightarrow> py_error + json) \<Rightarrow> fsys \<Rightarrow> string set \<Rightarrow> string set \<Rightarrow> string \<Rightarrow> string \<Rightarrow> cc_state \<Rightarrow> py_error option \<times> cc_state" where
  "check_process decode json_loads fs mandatory_keys optional_keys gen_path process st =
     (let process_path = path_join gen_path [process] in
      if \<not> fs_isdir fs process_path then (None, st)
      else attempt (listdir fs process_path) st (\<lambda>datasets.
             for_each (check_dataset decode json_loads fs mandatory_keys optional_keys process_path)
               datasets st))"

definition check_generator ::
  "(string \<Rightarrow> string option) \<Rightarrow> (string \<Rightarrow> py_error + json) \<Rightarrow> fsys \<Rightarrow> string set \<Rightarrow> string set \<Rightarrow> json \<Rightarrow> string \<Rightarrow> cc_state \<Rightarrow> py_error option \<times> cc_state" where
  "check_generator decode json_loads fs mandatory_keys optional_keys cards_dir generator st =
     attempt (py_path_join cards_dir [JStr generator]) st (\<lambda>gen_path.
       if \<not> fs_exists fs gen_path then (None, st)
       else attempt (listdir fs gen_path) st (\<lambda>processes.
              for_each (check_process decode json_loads fs mandatory_keys optional_keys gen_path)
                processes st))"

text \<open>
  \<^verbatim>\<open>check_cards\<close> returns what it printed and either the exception that ended it or
  the boolean it returns.
\<close>

definition check_cards ::
  "(string \<Rightarrow> string option) \<Rightarrow> (string \<Rightarrow> py_error + json) \<Rightarrow> json \<Rightarrow> fsys \<Rightarrow> (py_error + bool) \<times> out_line list" where
  "check_cards decode json_loads config fs =
     (case py_in ''dataset_schema'' config of Inl e \<Rightarrow> (Inl e, []) | Inr has_schema \<Rightarrow>
      if \<not> has_schema then (Inr False, [Text ''ERROR: Missing dataset_schema in config''])
      else
      case py_getitem config ''dataset_schema'' of Inl e \<Rightarrow> (Inl e, []) | Inr schema \<Rightarrow>
      case py_in ''mandatory_attributes'' schema of Inl e \<Rightarrow> (Inl e, []) | Inr has_mandatory \<Rightarrow>
      case (if \<not> has_mandatory then Inr True
            else and_then (py_in ''optional_attributes'' schema) (\<lambda>b. Inr (\<not> b))) of
        Inl e \<Rightarrow> (Inl e, [])
      | Inr incomplete \<Rightarrow>
      if incomplete then (Inr False, [Text ''ERROR: dataset_schema missing required keys''])
      else
      case and_then (py_getitem schema ''mandatory_attributes'') py_keys of
        Inl e \<Rightarrow> (Inl e, []) | Inr mandatory \<Rightarrow>
      case and_then (py_getitem schema ''optional_attributes'') py_keys of
        Inl e \<Rightarrow> (Inl e, []) | Inr optional \<Rightarrow>
      case and_then (py_getitem config ''paths'') (\<lambda>paths. py_getitem paths ''cards_dir'') of
        Inl e \<Rightarrow> (Inl e, []) | Inr cards_dir \<Rightarrow>
      case and_then (py_getitem config ''generators'') py_keys of
        Inl e \<Rightarrow> (Inl e, []) | Inr generators \<Rightarrow>
      case for_each (check_generator decode json_loads fs (set mandatory) (set optional) cards_dir)
             generators \<lparr>cc_errors = 0, cc_checked = 0, cc_printed = []\<rparr> of
        (Some e, st) \<Rightarrow> (Inl e, cc_printed st)
      | (None, st) \<Rightarrow>
          (Inr (cc_errors st = 0),
           cc_printed st @ [CheckedSummary (cc_checked st) (cc_errors st)]))"

section \<open>The command line\<close>






section \<open>Vocabulary of the properties\<close>












text \<open>
  The walk of the card checker as the specification describes it: under \<^verbatim>\<open>cards_dir\<close>, for
  every generator whose directory exists, every process directory and every dataset
  directory in it; \<open>dataset_cards\<close> lists the card file expected in each dataset directory,
  \<^verbatim>\<open><cards_dir>/<generator>/<process>/<dataset>/<dataset>.json\<close>.
\<close>

definition card_path :: "string \<Rightarrow> string \<Rightarrow> string" where
  "card_path process_path dataset = path_join (path_join process_path [dataset]) [dataset @ ''.json'']"

definition process_cards :: "fsys \<Rightarrow> string \<Rightarrow> string list" where
  "process_cards fs process_path =
     (if fs_isdir fs process_path
      then (case listdir fs process_path of
              Inl e \<Rightarrow> []
            | Inr ds \<Rightarrow> map (card_path process_path)
                         (filter (\<lambda>d. fs_isdir fs (path_join process_path [d])) ds))
      else [])"

definition generator_cards :: "fsys \<Rightarrow> string \<Rightarrow> string \<Rightarrow> string list" where
  "generator_cards fs cards_dir generator =
     (let gen_path = path_join cards_dir [generator] in
      if fs_exists fs gen_path
      then (case listdir fs gen_path of
              Inl e \<Rightarrow> []
            | Inr ps \<Rightarrow> concat (map (\<lambda>p. process_cards fs (path_join gen_path [p])) ps))
      else [])"

definition dataset_cards :: "fsys \<Rightarrow> string \<Rightarrow> string list \<Rightarrow> string list" where
  "dataset_cards fs cards_dir generators = concat (map (generator_cards fs cards_dir) generators)"






text \<open>
  Three ways a file system can follow from an earlier one: \<open>extends\<close> when what existed
  still exists and directories are still directories, \<open>keeps\<close> when moreover every entry
  is unchanged and only directories were added, \<open>same_dirs\<close> when the directories are the
  same (files may have been added or rewritten).
\<close>

definition extends :: "fsys \<Rightarrow> fsys \<Rightarrow> bool" where
  "extends fs fs' =
     (cwd fs' = cwd fs
      \<and> (\<forall>l. node fs l = Some Dir \<longrightarrow> node fs' l = Some Dir)
      \<and> (\<forall>l. node fs l \<noteq> None \<longrightarrow> node fs' l \<noteq> None))"

definition same_dirs :: "fsys \<Rightarrow> fsys \<Rightarrow> bool" where
  "same_dirs fs fs' = (cwd fs' = cwd fs \<and> (\<forall>l. node fs' l = Some Dir \<longleftrightarrow> node fs l = Some Dir))"

definition keeps :: "fsys \<Rightarrow> fsys \<Rightarrow> bool" where
  "keeps fs fs' = (cwd fs' = cwd fs \<and> (\<forall>l e. node fs l = Some e \<longrightarrow> node fs' l = Some e)
                   \<and> (\<forall>l. node fs' l \<noteq> node fs l \<longrightarrow> node fs' l = Some Dir))"




section \<open>An example installation\<close>

text \<open>
  A configuration, a file system and a stand-in for the JSON parser, on which the
  properties below are exercised. The configuration is complete, with two warnings (a
  generator without description, a campaign without beam energy); the generator
  \<^verbatim>\<open>powheg\<close> has neither cards nor skeletons on disk. Under \<^verbatim>\<open>cards/mg/tt\<close> there are
  four dataset directories: one with an unknown key in its card, one with a missing
  mandatory key, one without a card and one whose card is not JSON. \<open>demo_loads\<close> knows
  the documents of the example and the empty array, and rejects every other text as not
  being JSON.
\<close>

definition dq :: "string \<Rightarrow> string" where
  "dq s = CHR 0x22 # s @ [CHR 0x22]"

definition demo_paths :: json where
  "demo_paths = JObj [(''cards_dir'', JStr ''cards''), (''campaigns_dir'', JStr ''campaigns''),
                      (''fragments_dir'', JStr ''fragments''), (''skeletons_dir'', JStr ''skeletons''),
                      (''eos_base_path'', JStr ''/eos'')]"

definition demo_generators :: json where
  "demo_generators = JObj [(''mg'', JObj [(''skeleton_files'', JArr [JStr ''skeleton_cfg.dat''])]),
                           (''powheg'', JObj [(''description'', JStr ''POWHEG'')])]"

definition demo_config :: json where
  "demo_config = JObj
     [(''paths'', demo_paths),
      (''generators'', demo_generators),
      (''campaigns'', JObj [(''run3'', JObj [(''tune'', JStr ''CP5'')])]),
      (''physics_processes'', JArr [JStr ''tt'', JStr ''ww'']),
      (''tunes'', JObj []),
      (''parton_showers'', JObj []),
      (''dataset_schema'', JObj [(''mandatory_attributes'', JObj [(''a'', JNull), (''b'', JNull)]),
                                 (''optional_attributes'', JObj [(''c'', JNull)])])]"

definition demo_card_full :: string where
  "demo_card_full = ''{'' @ dq ''a'' @ '': 1, '' @ dq ''b'' @ '': 2, '' @ dq ''x'' @ '': 3}''"

definition demo_card_partial :: string where
  "demo_card_partial = ''{'' @ dq ''a'' @ '': 1, '' @ dq ''c'' @ '': 2}''"

definition demo_loads :: "string \<Rightarrow> py_error + json" where
  "demo_loads text =
     (if text = ''<config>'' then Inr demo_config
      else if text = demo_card_full then Inr (JObj [(''a'', JNum 1), (''b'', JNum 2), (''x'', JNum 3)])
      else if text = demo_card_partial then Inr (JObj [(''a'', JNum 1), (''c'', JNum 2)])
      else if text = ''[]'' then Inr (JArr [])
      else Inl JSONDecodeError)"

text \<open>The codec of the example is ASCII: a byte of 128 or more is not text.\<close>

definition ascii_codec :: "string \<Rightarrow> string option" where
  "ascii_codec s = (if list_all (\<lambda>c. \<not> digit7 c) s then Some s else None)"

definition demo_fs :: fsys where
  "demo_fs = \<lparr> cwd = [''work''],
     tree = [([''work''], Dir),
             ([''work'', ''config.json''], File ''<config>''),
             ([''work'', ''skeletons''], Dir),
             ([''work'', ''skeletons'', ''mg''], Dir),
             ([''work'', ''skeletons'', ''mg'', ''skeleton_cfg.dat''], File ''import $process; run $process''),
             ([''work'', ''cards''], Dir),
             ([''work'', ''cards'', ''mg''], Dir),
             ([''work'', ''cards'', ''mg'', ''tt''], Dir),
             ([''work'', ''cards'', ''mg'', ''tt'', ''full''], Dir),
             ([''work'', ''cards'', ''mg'', ''tt'', ''full'', ''full.json''], File demo_card_full),
             ([''work'', ''cards'', ''mg'', ''tt'', ''partial''], Dir),
             ([''work'', ''cards'', ''mg'', ''tt'', ''partial'', ''partial.json''], File demo_card_partial),
             ([''work'', ''cards'', ''mg'', ''tt'', ''nocard''], Dir),
             ([''work'', ''cards'', ''mg'', ''tt'', ''broken''], Dir),
             ([''work'', ''cards'', ''mg'', ''tt'', ''broken'', ''broken.json''], File ''{''),
             ([''work'', ''cards'', ''mg'', ''tt'', ''notes.txt''], File ''to do'')] \<rparr>"

definition demo_world :: world where
  "demo_world = \<lparr> files = demo_fs, stdout = [] \<rparr>"

definition demo_state :: cc_state where
  "demo_state = \<lparr> cc_errors = 0, cc_checked = 0, cc_printed = [] \<rparr>"





text \<open>
  A generator that lists three skeleton files, \<^verbatim>\<open>skeleton.dat\<close>, \<^verbatim>\<open>ttbar.dat\<close> and
  \<^verbatim>\<open>skeleton_run.dat\<close>: for the dataset \<^verbatim>\<open>ttbar\<close> the first two have the destination
  \<^verbatim>\<open>ttbar.dat\<close> and the third has \<^verbatim>\<open>ttbar_run.dat\<close>. In \<open>clash_world\<close> the three files
  are in the skeleton directory and the third one ends its line with a carriage return
  and a line feed; in \<open>bare_world\<close> the skeleton directory is empty. In \<open>blocked_world\<close>
  the skeleton paths of the two generators of the example configuration are regular
  files.
\<close>

definition clash_config :: json where
  "clash_config = JObj
     [(''paths'', JObj [(''cards_dir'', JStr ''cards''), (''skeletons_dir'', JStr ''skeletons'')]),
      (''generators'', JObj [(''mg'', JObj [(''skeleton_files'',
          JArr [JStr ''skeleton.dat'', JStr ''ttbar.dat'', JStr ''skeleton_run.dat''])])])]"

definition clash_world :: world where
  "clash_world = \<lparr> files = \<lparr> cwd = [''work''],
       tree = [([''work''], Dir),
               ([''work'', ''skeletons''], Dir),
               ([''work'', ''skeletons'', ''mg''], Dir),
               ([''work'', ''skeletons'', ''mg'', ''skeleton.dat''], File ''first $process''),
               ([''work'', ''skeletons'', ''mg'', ''ttbar.dat''], File ''second $process''),
               ([''work'', ''skeletons'', ''mg'', ''skeleton_run.dat''],
                  File (''run $process'' @ [CHR 0x0D, CHR 0x0A]))] \<rparr>,
     stdout = [] \<rparr>"

definition bare_world :: world where
  "bare_world = \<lparr> files = \<lparr> cwd = [''work''],
       tree = [([''work''], Dir),
               ([''work'', ''skeletons''], Dir),
               ([''work'', ''skeletons'', ''mg''], Dir)] \<rparr>,
     stdout = [] \<rparr>"


text \<open>
  Card trees for the example configuration, each under \<^verbatim>\<open>cards/mg/tt\<close>. In \<open>array_fs\<close> the
  card of \<^verbatim>\<open>listy\<close> is the JSON array \<^verbatim>\<open>[]\<close>. In \<open>binary_fs\<close> the card of \<^verbatim>\<open>binary\<close> is
  the byte 255, which is not text, and the dataset \<^verbatim>\<open>nocard\<close> after it has no card. In
  \<open>stray_fs\<close> the path \<^verbatim>\<open>cards/powheg\<close> of the second generator is a regular file. In
  \<open>survey_fs\<close> the generator has two process directories, with a missing and a broken card
  in the first and two cards in the second.
\<close>

definition array_fs :: fsys where
  "array_fs = \<lparr> cwd = [''work''],
     tree = [([''work''], Dir),
             ([''work'', ''cards''], Dir),
             ([''work'', ''cards'', ''mg''], Dir),
             ([''work'', ''cards'', ''mg'', ''tt''], Dir),
             ([''work'', ''cards'', ''mg'', ''tt'', ''listy''], Dir),
             ([''work'', ''cards'', ''mg'', ''tt'', ''listy'', ''listy.json''], File ''[]'')] \<rparr>"




section \<open>Facts about the control flow\<close>

lemma and_then_Inr [simp]: "and_then (Inr v) k = k v"
  by (simp add: and_then_def)

lemma and_then_Inl [simp]: "and_then (Inl e) k = Inl e"
  by (simp add: and_then_def)

lemma attempt_Inr [simp]: "attempt (Inr v) s k = k v"
  by (simp add: attempt_def)

lemma attempt_Inl [simp]: "attempt (Inl e) s k = (Some e, s)"
  by (simp add: attempt_def)

lemma attempt_None:
  "attempt m s k = (None, s') \<longleftrightarrow> (\<exists>v. m = Inr v \<and> k v = (None, s'))"
  by (cases m) auto


lemma attempt_invariant:
  assumes "P s" and "\<And>v. m = Inr v \<Longrightarrow> P (snd (k v))"
  shows "P (snd (attempt m s k))"
  using assms by (cases m) auto

lemma for_each_Cons_None:
  "for_each body (x # xs) s = (None, s') \<longleftrightarrow>
     (\<exists>s1. body x s = (None, s1) \<and> for_each body xs s1 = (None, s'))"
  by (auto split: prod.splits option.splits)

lemma for_each_invariant:
  assumes "\<And>x s. x \<in> set xs \<Longrightarrow> P s \<Longrightarrow> P (snd (body x s))" and "P s"
  shows "P (snd (for_each body xs s))"
  using assms
proof (induction xs arbitrary: s)
  case Nil
  then show ?case by simp
next
  case (Cons x xs)
  have step: "P (snd (body x s))" using Cons.prems by simp
  show ?case
  proof (cases "body x s")
    case (Pair r s1)
    show ?thesis
    proof (cases r)
      case None
      with Pair step Cons.IH[of s1] Cons.prems(1) show ?thesis by simp
    next
      case (Some e)
      with Pair step show ?thesis by simp
    qed
  qed
qed

lemma for_each_establish:
  assumes loop: "for_each body xs s = (None, s')"
    and step: "\<And>x s s'. x \<in> set xs \<Longrightarrow> body x s = (None, s') \<Longrightarrow> le s s' \<and> Q x s'"
    and mono: "\<And>x s s'. le s s' \<Longrightarrow> Q x s \<Longrightarrow> Q x s'"
    and refl: "\<And>s. le s s"
    and trans: "\<And>a b c. le a b \<Longrightarrow> le b c \<Longrightarrow> le a c"
  shows "le s s' \<and> (\<forall>x\<in>set xs. Q x s')"
  using loop step
proof (induction xs arbitrary: s)
  case Nil
  then show ?case by (simp add: refl)
next
  case (Cons x xs)
  from Cons.prems(1)[unfolded for_each_Cons_None] obtain s1 where
    first: "body x s = (None, s1)" and rest: "for_each body xs s1 = (None, s')"
    by blast
  have a: "le s s1 \<and> Q x s1"
    using Cons.prems(2)[of x s s1] first by simp
  have b: "le s1 s' \<and> (\<forall>y\<in>set xs. Q y s')"
  proof (rule Cons.IH[OF rest])
    fix y t t' assume "y \<in> set xs" "body y t = (None, t')"
    then show "le t t' \<and> Q y t'" using Cons.prems(2)[of y t t'] by simp
  qed
  from a b show ?case by (auto intro: trans mono)
qed


lemma case_loop_None:
  "(case r of (Some e, s) \<Rightarrow> (Some e, s) | (None, s) \<Rightarrow> k s) = (None, s') \<longleftrightarrow>
   (\<exists>s1. r = (None, s1) \<and> k s1 = (None, s'))"
  by (cases r) (auto split: option.splits)

lemma case_step_None:
  "(case r of (Some e, x) \<Rightarrow> (Some e, f x) | (None, x) \<Rightarrow> k x) = (None, s') \<longleftrightarrow>
   (\<exists>x. r = (None, x) \<and> k x = (None, s'))"
  by (cases r) (auto split: option.splits)

lemma files_say [simp]: "files (say line w) = files w"
  by (simp add: say_def)

lemma stdout_say [simp]: "stdout (say line w) = stdout w @ [line]"
  by (simp add: say_def)

section \<open>Properties of the schema validator\<close>




lemma filter_empty_list_all: "filter P xs = [] \<longleftrightarrow> list_all (\<lambda>x. \<not> P x) xs"
  by (induction xs) auto


















section \<open>Properties of the configuration loader\<close>

lemma read_file_isfile: "read_file fs p = Inr content \<Longrightarrow> fs_isfile fs p"
  by (auto simp: read_file_def fs_isfile_def split: option.splits entry.splits)

lemma isfile_read_file: "fs_isfile fs p \<Longrightarrow> \<exists>content. read_file fs p = Inr content"
  by (auto simp: read_file_def fs_isfile_def split: option.splits entry.splits)

lemma read_file_exists: "read_file fs p = Inr content \<Longrightarrow> fs_exists fs p"
  by (auto simp: read_file_def fs_exists_def split: option.splits entry.splits)

lemma read_text_Inr:
  "read_text decode fs p = Inr content \<longleftrightarrow>
     (\<exists>bytes text. read_file fs p = Inr bytes \<and> decode bytes = Some text
        \<and> content = universal_newlines text)"
  by (auto simp: read_text_def and_then_def split: sum.splits option.splits)

lemma read_text_isfile: "read_text decode fs p = Inr content \<Longrightarrow> fs_isfile fs p"
  by (auto simp: read_text_Inr dest: read_file_isfile)

lemma read_text_exists: "read_text decode fs p = Inr content \<Longrightarrow> fs_exists fs p"
  by (auto simp: read_text_Inr dest: read_file_exists)

text \<open>
  C8. Loading is all or nothing: a missing file ends the process with the
  "Config file not found" message, a file that cannot be read as text or is not valid
  JSON ends it with the exception of the read or of the parser, and a configuration is
  returned only as the parse of the whole file.
\<close>

theorem load_config_all_or_nothing:
  "(\<not> fs_exists fs (pure_path (path_join script_dir [config_path])) \<longrightarrow>
      load_config decode json_loads script_dir config_path fs =
        Inl (SysExit (''ERROR: Config file not found: ''
                        @ pure_path (path_join script_dir [config_path]))))
   \<and> (\<forall>e. fs_exists fs (pure_path (path_join script_dir [config_path]))
          \<and> read_text decode fs (pure_path (path_join script_dir [config_path])) = Inl e \<longrightarrow>
        load_config decode json_loads script_dir config_path fs = Inl e)
   \<and> (\<forall>content e. read_text decode fs (pure_path (path_join script_dir [config_path])) = Inr content
          \<and> json_loads content = Inl e \<longrightarrow>
        load_config decode json_loads script_dir config_path fs = Inl e)
   \<and> (\<forall>content config. read_text decode fs (pure_path (path_join script_dir [config_path])) = Inr content
          \<and> json_loads content = Inr config \<longrightarrow>
        load_config decode json_loads script_dir config_path fs = Inr config)
   \<and> (\<forall>config. load_config decode json_loads script_dir config_path fs = Inr config \<longrightarrow>
        (\<exists>content. read_text decode fs (pure_path (path_join script_dir [config_path])) = Inr content
           \<and> json_loads content = Inr config))
   \<and> ((\<exists>config. load_config decode json_loads script_dir config_path fs = Inr config)
        \<or> (\<exists>e. load_config decode json_loads script_dir config_path fs = Inl e))"
proof (intro conjI)
  show "(\<exists>config. load_config decode json_loads script_dir config_path fs = Inr config)
        \<or> (\<exists>e. load_config decode json_loads script_dir config_path fs = Inl e)"
    by (cases "load_config decode json_loads script_dir config_path fs") auto
qed (auto simp: load_config_def Let_def and_then_def dest: read_text_exists split: sum.splits)

theorem load_config_all_or_nothing_witness:
  "\<not> fs_exists demo_fs (pure_path (path_join ''/work'' [''absent.json'']))
   \<and> load_config ascii_codec demo_loads ''/work'' ''absent.json'' demo_fs =
        Inl (SysExit ''ERROR: Config file not found: /work/absent.json'')
   \<and> fs_exists demo_fs (pure_path (path_join ''/work'' [''cards'']))
   \<and> read_text ascii_codec demo_fs (pure_path (path_join ''/work'' [''cards''])) = Inl OSError
   \<and> load_config ascii_codec demo_loads ''/work'' ''cards'' demo_fs = Inl OSError
   \<and> read_text ascii_codec demo_fs (pure_path (path_join ''/work'' [''cards/mg/tt/broken/broken.json''])) = Inr ''{''
   \<and> demo_loads ''{'' = Inl JSONDecodeError
   \<and> load_config ascii_codec demo_loads ''/work'' ''cards/mg/tt/broken/broken.json'' demo_fs = Inl JSONDecodeError
   \<and> read_text ascii_codec demo_fs (pure_path (path_join ''/work'' [''config.json''])) = Inr ''<config>''
   \<and> demo_loads ''<config>'' = Inr demo_config
   \<and> load_config ascii_codec demo_loads ''/work'' ''config.json'' demo_fs = Inr demo_config"
proof -
  have a: "\<not> fs_exists demo_fs (pure_path (path_join ''/work'' [''absent.json'']))"
    by code_simp
  have p: "pure_path (path_join ''/work'' [''absent.json'']) = ''/work/absent.json''"
    by code_simp
  have b: "read_text ascii_codec demo_fs (pure_path (path_join ''/work'' [''cards/mg/tt/broken/broken.json''])) = Inr ''{''"
    by code_simp
  have c: "demo_loads ''{'' = Inl JSONDecodeError"
    by code_simp
  have d: "read_text ascii_codec demo_fs (pure_path (path_join ''/work'' [''config.json''])) = Inr ''<config>''"
    by code_simp
  have e: "demo_loads ''<config>'' = Inr demo_config"
    by (simp add: demo_loads_def)
  have f: "fs_exists demo_fs (pure_path (path_join ''/work'' [''cards'']))"
    by code_simp
  have g: "read_text ascii_codec demo_fs (pure_path (path_join ''/work'' [''cards''])) = Inl OSError"
    by code_simp
  from load_config_all_or_nothing[of demo_fs "''/work''" "''absent.json''" ascii_codec demo_loads] a p
  have 1: "load_config ascii_codec demo_loads ''/work'' ''absent.json'' demo_fs =
        Inl (SysExit ''ERROR: Config file not found: /work/absent.json'')" by simp
  from load_config_all_or_nothing[of demo_fs "''/work''" "''cards/mg/tt/broken/broken.json''" ascii_codec demo_loads] b c
  have 2: "load_config ascii_codec demo_loads ''/work'' ''cards/mg/tt/broken/broken.json'' demo_fs = Inl JSONDecodeError"
    by blast
  from load_config_all_or_nothing[of demo_fs "''/work''" "''config.json''" ascii_codec demo_loads] d e
  have 3: "load_config ascii_codec demo_loads ''/work'' ''config.json'' demo_fs = Inr demo_config"
    by blast
  from load_config_all_or_nothing[of demo_fs "''/work''" "''cards''" ascii_codec demo_loads] f g
  have 4: "load_config ascii_codec demo_loads ''/work'' ''cards'' demo_fs = Inl OSError"
    by blast
  show ?thesis by (intro conjI) (fact a b c d e f g 1 2 3 4)+
qed

section \<open>Properties of the card checker\<close>




lemma check_dataset_object:
  assumes "fs_isdir fs (path_join process_path [dataset])"
    and "read_text decode fs (card_path process_path dataset) = Inr content"
    and "json_loads content = Inr (JObj kvs)"
  shows "check_dataset decode json_loads fs mandatory_keys optional_keys process_path dataset st =
     (None,
      st\<lparr>cc_checked := cc_checked st + 1,
         cc_errors := cc_errors st + (if mandatory_keys - fst ` set kvs \<noteq> {} then 1 else 0),
         cc_printed := cc_printed st
           @ (if mandatory_keys - fst ` set kvs \<noteq> {}
              then [MissingKeys (card_path process_path dataset) (mandatory_keys - fst ` set kvs)]
              else [])
           @ (if fst ` set kvs - mandatory_keys - optional_keys \<noteq> {}
              then [UnknownKeys (card_path process_path dataset)
                      (fst ` set kvs - mandatory_keys - optional_keys)]
              else [])\<rparr>)"
  using assms read_text_isfile[OF assms(2)]
  by (simp add: check_dataset_def card_path_def py_keys_def Let_def cc_error_def cc_say_def)

text \<open>
  C1, for the cards that parse to a JSON object: the checker counts the card, computes
  missing = mandatory keys minus the card's keys and unknown = the card's keys minus
  mandatory minus optional keys, adds one error exactly when missing is not empty, and
  only prints the unknown keys.
\<close>

theorem check_dataset_reports_keys:
  assumes "fs_isdir fs (path_join process_path [dataset])"
    and "read_text decode fs (card_path process_path dataset) = Inr content"
    and "json_loads content = Inr (JObj kvs)"
  shows "check_dataset decode json_loads fs mandatory_keys optional_keys process_path dataset st =
     (None,
      st\<lparr>cc_checked := cc_checked st + 1,
         cc_errors := cc_errors st + (if mandatory_keys - fst ` set kvs \<noteq> {} then 1 else 0),
         cc_printed := cc_printed st
           @ (if mandatory_keys - fst ` set kvs \<noteq> {}
              then [MissingKeys (card_path process_path dataset) (mandatory_keys - fst ` set kvs)]
              else [])
           @ (if fst ` set kvs - mandatory_keys - optional_keys \<noteq> {}
              then [UnknownKeys (card_path process_path dataset)
                      (fst ` set kvs - mandatory_keys - optional_keys)]
              else [])\<rparr>)"
  using assms by (rule check_dataset_object)

theorem check_dataset_reports_keys_witness:
  "fs_isdir demo_fs (path_join ''cards/mg/tt'' [''full''])
   \<and> read_text ascii_codec demo_fs (card_path ''cards/mg/tt'' ''full'') = Inr demo_card_full
   \<and> demo_loads demo_card_full = Inr (JObj [(''a'', JNum 1), (''b'', JNum 2), (''x'', JNum 3)])
   \<and> check_dataset ascii_codec demo_loads demo_fs {''a'', ''b''} {''c''} ''cards/mg/tt'' ''full'' demo_state =
       (None, \<lparr> cc_errors = 0, cc_checked = 1,
                cc_printed = [UnknownKeys ''cards/mg/tt/full/full.json'' {''x''}] \<rparr>)"
proof -
  have a: "fs_isdir demo_fs (path_join ''cards/mg/tt'' [''full''])"
    by code_simp
  have b: "read_text ascii_codec demo_fs (card_path ''cards/mg/tt'' ''full'') = Inr demo_card_full"
    by code_simp
  have c: "demo_loads demo_card_full = Inr (JObj [(''a'', JNum 1), (''b'', JNum 2), (''x'', JNum 3)])"
    by code_simp
  have p: "card_path ''cards/mg/tt'' ''full'' = ''cards/mg/tt/full/full.json''"
    by code_simp
  from check_dataset_reports_keys[where decode = ascii_codec and json_loads = demo_loads
      and fs = demo_fs
      and process_path = "''cards/mg/tt''" and dataset = "''full''" and content = demo_card_full
      and kvs = "[(''a'', JNum 1), (''b'', JNum 2), (''x'', JNum 3)]"
      and mandatory_keys = "{''a'', ''b''}" and optional_keys = "{''c''}" and st = demo_state,
      OF a b c] a b c p
  show ?thesis by (simp add: demo_state_def)
qed

text \<open>
  A card that parses, but not to an object, has no keys: the card \<^verbatim>\<open>[]\<close> is counted as
  checked, then the uncaught \<^verbatim>\<open>AttributeError\<close> of \<^verbatim>\<open>data.keys()\<close> ends the run; no
  missing or unknown set is computed, and no error is counted although the mandatory keys
  are not in the card.
\<close>

theorem check_dataset_reports_keys_counterexample:
  "fs_isdir array_fs (path_join ''cards/mg/tt'' [''listy''])
   \<and> read_text ascii_codec array_fs (card_path ''cards/mg/tt'' ''listy'') = Inr ''[]''
   \<and> demo_loads ''[]'' = Inr (JArr [])
   \<and> check_dataset ascii_codec demo_loads array_fs {''a'', ''b''} {''c''} ''cards/mg/tt'' ''listy'' demo_state =
       (Some AttributeError, \<lparr> cc_errors = 0, cc_checked = 1, cc_printed = [] \<rparr>)
   \<and> check_cards ascii_codec demo_loads demo_config array_fs = (Inl AttributeError, [])"
proof -
  have a: "fs_isdir array_fs (path_join ''cards/mg/tt'' [''listy''])"
    by code_simp
  have b: "read_text ascii_codec array_fs (card_path ''cards/mg/tt'' ''listy'') = Inr ''[]''"
    by code_simp
  have c: "demo_loads ''[]'' = Inr (JArr [])"
    by code_simp
  have d: "check_dataset ascii_codec demo_loads array_fs {''a'', ''b''} {''c''} ''cards/mg/tt'' ''listy'' demo_state =
       (Some AttributeError, \<lparr> cc_errors = 0, cc_checked = 1, cc_printed = [] \<rparr>)"
    by code_simp
  have e: "check_cards ascii_codec demo_loads demo_config array_fs = (Inl AttributeError, [])"
    by code_simp
  show ?thesis by (intro conjI) (fact a b c d e)+
qed

text \<open>What one dataset entry does to the two counters, whenever the body returns.\<close>

lemma check_dataset_counts:
  assumes "check_dataset decode json_loads fs mk ok process_path dataset st = (None, st')"
  shows "cc_checked st' = cc_checked st
           + (if fs_isdir fs (path_join process_path [dataset])
                 \<and> fs_isfile fs (card_path process_path dataset) then 1 else 0)"
    and "cc_errors st' \<ge> cc_errors st
           + (if fs_isdir fs (path_join process_path [dataset])
                 \<and> \<not> fs_isfile fs (card_path process_path dataset) then 1 else 0)"
  using assms
  by (auto simp: check_dataset_def card_path_def Let_def cc_error_def cc_say_def attempt_def
        split: if_splits sum.splits option.splits)

lemma check_datasets_counts:
  "for_each (check_dataset decode json_loads fs mk ok process_path) ds st = (None, st') \<Longrightarrow>
   cc_checked st' = cc_checked st
      + length (filter (fs_isfile fs) (map (card_path process_path)
                  (filter (\<lambda>d. fs_isdir fs (path_join process_path [d])) ds)))
   \<and> cc_errors st' \<ge> cc_errors st
      + length (filter (\<lambda>p. \<not> fs_isfile fs p) (map (card_path process_path)
                  (filter (\<lambda>d. fs_isdir fs (path_join process_path [d])) ds)))"
proof (induction ds arbitrary: st)
  case Nil
  then show ?case by simp
next
  case (Cons d ds)
  from Cons.prems[unfolded for_each_Cons_None] obtain s1 where
    step: "check_dataset decode json_loads fs mk ok process_path d st = (None, s1)"
    and rest: "for_each (check_dataset decode json_loads fs mk ok process_path) ds s1 = (None, st')"
    by blast
  from Cons.IH[OF rest] check_dataset_counts[OF step] show ?case
    by auto
qed

lemma check_process_counts:
  assumes "check_process decode json_loads fs mk ok gen_path process st = (None, st')"
  shows "cc_checked st' = cc_checked st
           + length (filter (fs_isfile fs) (process_cards fs (path_join gen_path [process])))
       \<and> cc_errors st' \<ge> cc_errors st
           + length (filter (\<lambda>p. \<not> fs_isfile fs p) (process_cards fs (path_join gen_path [process])))"
proof (cases "fs_isdir fs (path_join gen_path [process])")
  case False
  with assms show ?thesis by (simp add: check_process_def process_cards_def)
next
  case True
  with assms obtain ds where ds: "listdir fs (path_join gen_path [process]) = Inr ds"
    and loop: "for_each (check_dataset decode json_loads fs mk ok (path_join gen_path [process])) ds st = (None, st')"
    by (auto simp: check_process_def attempt_None Let_def)
  from check_datasets_counts[OF loop] True ds show ?thesis
    by (simp add: process_cards_def)
qed

lemma check_processes_counts:
  "for_each (check_process decode json_loads fs mk ok gen_path) ps st = (None, st') \<Longrightarrow>
   cc_checked st' = cc_checked st
      + length (filter (fs_isfile fs) (concat (map (\<lambda>p. process_cards fs (path_join gen_path [p])) ps)))
   \<and> cc_errors st' \<ge> cc_errors st
      + length (filter (\<lambda>p. \<not> fs_isfile fs p)
                  (concat (map (\<lambda>p. process_cards fs (path_join gen_path [p])) ps)))"
proof (induction ps arbitrary: st)
  case Nil
  then show ?case by simp
next
  case (Cons p ps)
  from Cons.prems[unfolded for_each_Cons_None] obtain s1 where
    step: "check_process decode json_loads fs mk ok gen_path p st = (None, s1)"
    and rest: "for_each (check_process decode json_loads fs mk ok gen_path) ps s1 = (None, st')"
    by blast
  from Cons.IH[OF rest] check_process_counts[OF step] show ?case
    by auto
qed

lemma check_generator_counts:
  assumes "check_generator decode json_loads fs mk ok (JStr cards_dir) generator st = (None, st')"
  shows "cc_checked st' = cc_checked st
           + length (filter (fs_isfile fs) (generator_cards fs cards_dir generator))
       \<and> cc_errors st' \<ge> cc_errors st
           + length (filter (\<lambda>p. \<not> fs_isfile fs p) (generator_cards fs cards_dir generator))"
proof (cases "fs_exists fs (path_join cards_dir [generator])")
  case False
  with assms show ?thesis
    by (simp add: check_generator_def generator_cards_def py_path_join_def)
next
  case True
  with assms obtain ps where ps: "listdir fs (path_join cards_dir [generator]) = Inr ps"
    and loop: "for_each (check_process decode json_loads fs mk ok (path_join cards_dir [generator])) ps st = (None, st')"
    by (auto simp: check_generator_def attempt_None py_path_join_def)
  from check_processes_counts[OF loop] True ps show ?thesis
    by (simp add: generator_cards_def)
qed

lemma check_generators_counts:
  "for_each (check_generator decode json_loads fs mk ok (JStr cards_dir)) gens st = (None, st') \<Longrightarrow>
   cc_checked st' = cc_checked st
      + length (filter (fs_isfile fs) (dataset_cards fs cards_dir gens))
   \<and> cc_errors st' \<ge> cc_errors st
      + length (filter (\<lambda>p. \<not> fs_isfile fs p) (dataset_cards fs cards_dir gens))"
proof (induction gens arbitrary: st)
  case Nil
  then show ?case by (simp add: dataset_cards_def)
next
  case (Cons g gens)
  from Cons.prems[unfolded for_each_Cons_None] obtain s1 where
    step: "check_generator decode json_loads fs mk ok (JStr cards_dir) g st = (None, s1)"
    and rest: "for_each (check_generator decode json_loads fs mk ok (JStr cards_dir)) gens s1 = (None, st')"
    by blast
  from Cons.IH[OF rest] check_generator_counts[OF step] show ?case
    by (auto simp: dataset_cards_def)
qed

text \<open>How a completed run of \<open>check_cards\<close> is put together.\<close>

lemma check_cards_summary:
  assumes "check_cards decode json_loads config fs = (Inr ok, printed @ [CheckedSummary c e])"
  shows "\<exists>schema mandatory optional cards_dir generators st.
           py_getitem config ''dataset_schema'' = Inr schema
         \<and> and_then (py_getitem schema ''mandatory_attributes'') py_keys = Inr mandatory
         \<and> and_then (py_getitem schema ''optional_attributes'') py_keys = Inr optional
         \<and> and_then (py_getitem config ''paths'') (\<lambda>paths. py_getitem paths ''cards_dir'') = Inr cards_dir
         \<and> and_then (py_getitem config ''generators'') py_keys = Inr generators
         \<and> for_each (check_generator decode json_loads fs (set mandatory) (set optional) cards_dir)
              generators \<lparr>cc_errors = 0, cc_checked = 0, cc_printed = []\<rparr> = (None, st)
         \<and> c = cc_checked st \<and> e = cc_errors st \<and> printed = cc_printed st \<and> ok = (e = 0)"
  using assms unfolding check_cards_def
  by (auto split: sum.splits if_splits prod.splits option.splits)
















text \<open>
  C10. When a run of \<^verbatim>\<open>check-cards\<close> is completed, the number of checked files it reports is
  the number of dataset directories whose card file exists, whether or not that file
  parses; each dataset directory without its card file is among the errors and not among
  the checked files.
\<close>

theorem checked_counts_existing_cards:
  assumes "check_cards decode json_loads config fs = (Inr success, body @ [CheckedSummary c e])"
    and "py_getitem config ''paths'' = Inr paths"
    and "py_getitem paths ''cards_dir'' = Inr (JStr cards_dir)"
    and "py_getitem config ''generators'' = Inr gens"
    and "py_keys gens = Inr generators"
  shows "c = length (filter (fs_isfile fs) (dataset_cards fs cards_dir generators))
       \<and> e \<ge> length (filter (\<lambda>p. \<not> fs_isfile fs p) (dataset_cards fs cards_dir generators))"
proof -
  from check_cards_summary[OF assms(1)] assms(2-5)
  obtain mandatory optional st where
    loop: "for_each (check_generator decode json_loads fs (set mandatory) (set optional) (JStr cards_dir))
              generators \<lparr>cc_errors = 0, cc_checked = 0, cc_printed = []\<rparr> = (None, st)"
    and c: "c = cc_checked st" and e: "e = cc_errors st"
    by auto
  from check_generators_counts[OF loop] c e show ?thesis by simp
qed

theorem checked_counts_existing_cards_witness:
  "check_cards ascii_codec demo_loads demo_config demo_fs =
       (Inr False,
        [UnknownKeys ''cards/mg/tt/full/full.json'' {''x''},
         MissingKeys ''cards/mg/tt/partial/partial.json'' {''b''},
         MissingCard ''cards/mg/tt/nocard/nocard.json'',
         JsonError ''cards/mg/tt/broken/broken.json''] @ [CheckedSummary 3 3])
   \<and> dataset_cards demo_fs ''cards'' [''mg'', ''powheg''] =
       [''cards/mg/tt/full/full.json'', ''cards/mg/tt/partial/partial.json'',
        ''cards/mg/tt/nocard/nocard.json'', ''cards/mg/tt/broken/broken.json'']
   \<and> (3::nat) = length (filter (fs_isfile demo_fs) (dataset_cards demo_fs ''cards'' [''mg'', ''powheg'']))
   \<and> (3::nat) \<ge> length (filter (\<lambda>p. \<not> fs_isfile demo_fs p)
                          (dataset_cards demo_fs ''cards'' [''mg'', ''powheg'']))"
proof -
  have f: "check_cards ascii_codec demo_loads demo_config demo_fs =
       (Inr False,
        [UnknownKeys ''cards/mg/tt/full/full.json'' {''x''},
         MissingKeys ''cards/mg/tt/partial/partial.json'' {''b''},
         MissingCard ''cards/mg/tt/nocard/nocard.json'',
         JsonError ''cards/mg/tt/broken/broken.json''] @ [CheckedSummary 3 3])"
    by code_simp
  have p: "py_getitem demo_config ''paths'' = Inr demo_paths"
    by code_simp
  have cd: "py_getitem demo_paths ''cards_dir'' = Inr (JStr ''cards'')"
    by code_simp
  have g: "py_getitem demo_config ''generators'' = Inr demo_generators"
    by code_simp
  have k: "py_keys demo_generators = Inr [''mg'', ''powheg'']"
    by code_simp
  have d: "dataset_cards demo_fs ''cards'' [''mg'', ''powheg''] =
       [''cards/mg/tt/full/full.json'', ''cards/mg/tt/partial/partial.json'',
        ''cards/mg/tt/nocard/nocard.json'', ''cards/mg/tt/broken/broken.json'']"
    by code_simp
  from checked_counts_existing_cards[OF f p cd g k] f d show ?thesis by blast
qed

section \<open>Exit codes\<close>





section \<open>Dry runs\<close>

lemma make_dirs_body_dry:
  "files (snd (snd (make_dirs_body False base_path campaign generator process s))) = files (snd s)"
  by (cases s) (auto simp: make_dirs_body_def attempt_def Let_def split: sum.splits)

lemma make_dirs_loops_dry:
  "files (snd (snd (make_dirs_loops False base_path campaigns generators processes s))) = files (snd s)"
  unfolding make_dirs_loops_def
  by (rule for_each_invariant[where P = "\<lambda>t. files (snd t) = files (snd s)"],
      rule for_each_invariant, rule attempt_invariant, assumption,
      rule for_each_invariant, simp_all add: make_dirs_body_dry)

lemma make_dirs_loops_dry':
  "make_dirs_loops False base_path campaigns generators processes s = (r, created, w') \<Longrightarrow>
   files w' = files (snd s)"
  using make_dirs_loops_dry[of base_path campaigns generators processes s] by simp

lemma make_dirs_dry: "files (snd (make_dirs config False w)) = files w"
  by (auto simp: make_dirs_def attempt_def dest!: make_dirs_loops_dry'
        split: sum.splits prod.splits option.splits)

lemma plan_body_files:
  "files (snd (plan_body skeleton_path target_path dataset_name skel_file w)) = files w"
  by (auto simp: plan_body_def attempt_def Let_def split: sum.splits json.splits)

lemma plan_loop_files:
  "for_each (plan_body skeleton_path target_path dataset_name) skels w = (r, w') \<Longrightarrow>
   files w' = files w"
  using for_each_invariant[where P = "\<lambda>t. files t = files w"
      and body = "plan_body skeleton_path target_path dataset_name" and xs = skels and s = w]
  by (simp add: plan_body_files)

lemma make_cards_dry: "files (snd (make_cards decode encode config generator process dataset_name False w)) = files w"
  by (auto simp: make_cards_def attempt_def Let_def dest!: plan_loop_files
        split: sum.splits prod.splits option.splits)

text \<open>
  C7. Without the perform flag neither \<^verbatim>\<open>make-dirs\<close> nor \<^verbatim>\<open>make-cards\<close> changes the file
  system, whatever the configuration and however the action ends.
\<close>

theorem dry_run_leaves_files:
  "files (snd (make_dirs config False w)) = files w
   \<and> files (snd (make_cards decode encode config generator process dataset_name False w)) = files w"
  by (simp add: make_dirs_dry make_cards_dry)

theorem dry_run_leaves_files_witness:
  "files (snd (make_dirs demo_config False demo_world)) = demo_fs
   \<and> stdout (snd (make_dirs demo_config False demo_world)) =
       [WouldCreate ''/eos/run3/mg/tt'', WouldCreate ''/eos/run3/mg/ww'',
        WouldCreate ''/eos/run3/powheg/tt'', WouldCreate ''/eos/run3/powheg/ww'',
        RunWithDoitDirs 4]
   \<and> files (snd (make_cards ascii_codec ascii_codec demo_config ''mg'' ''tt'' ''ttbar_2023'' False demo_world)) = demo_fs
   \<and> stdout (snd (make_cards ascii_codec ascii_codec demo_config ''mg'' ''tt'' ''ttbar_2023'' False demo_world)) =
       [CreatingCardDirectory ''cards/mg/tt/ttbar_2023'',
        SkeletonMapping ''skeleton_cfg.dat'' ''ttbar_2023_cfg.dat'',
        RunWithDoitCards]"
proof -
  have a: "stdout (snd (make_dirs demo_config False demo_world)) =
       [WouldCreate ''/eos/run3/mg/tt'', WouldCreate ''/eos/run3/mg/ww'',
        WouldCreate ''/eos/run3/powheg/tt'', WouldCreate ''/eos/run3/powheg/ww'',
        RunWithDoitDirs 4]"
    by code_simp
  have b: "stdout (snd (make_cards ascii_codec ascii_codec demo_config ''mg'' ''tt'' ''ttbar_2023'' False demo_world)) =
       [CreatingCardDirectory ''cards/mg/tt/ttbar_2023'',
        SkeletonMapping ''skeleton_cfg.dat'' ''ttbar_2023_cfg.dat'',
        RunWithDoitCards]"
    by code_simp
  from dry_run_leaves_files[of demo_config demo_world ascii_codec ascii_codec "''mg''" "''tt''" "''ttbar_2023''"] a b
  show ?thesis by (simp add: demo_world_def)
qed

section \<open>Facts about the file system\<close>

lemma extends_refl [simp]: "extends fs fs"
  by (simp add: extends_def)


lemma walk_extends:
  "extends fs fs' \<Longrightarrow> walk fs cur cs = Some l \<Longrightarrow> walk fs' cur cs = Some l"
  by (induction cs arbitrary: cur) (auto simp: extends_def split: if_splits)

lemma resolve_extends:
  "extends fs fs' \<Longrightarrow> resolve fs p = Some l \<Longrightarrow> resolve fs' p = Some l"
  by (auto simp: resolve_def walk_extends extends_def split: if_splits)


lemma same_dirs_refl [simp]: "same_dirs fs fs"
  by (simp add: same_dirs_def)

lemma same_dirs_trans: "same_dirs a b \<Longrightarrow> same_dirs b c \<Longrightarrow> same_dirs a c"
  by (simp add: same_dirs_def)

lemma walk_same_dirs: "same_dirs fs fs' \<Longrightarrow> walk fs' cur cs = walk fs cur cs"
  by (induction cs arbitrary: cur) (auto simp: same_dirs_def)

lemma resolve_same_dirs: "same_dirs fs fs' \<Longrightarrow> resolve fs' p = resolve fs p"
  by (simp add: resolve_def walk_same_dirs) (simp add: same_dirs_def)

lemma node_add:
  "node (fs\<lparr>tree := (k, e) # tree fs\<rparr>) l = (if l = [] then Some Dir else if l = k then Some e else node fs l)"
  by (simp add: node_def)

lemma node_root [simp]: "node fs [] = Some Dir"
  by (simp add: node_def)







lemma write_text_effect:
  assumes "write_text encode fs p text = (r, fs')"
  shows "fs' = fs \<or> (\<exists>l bytes. resolve fs p = Some l \<and> node fs l \<noteq> Some Dir
           \<and> fs' = fs\<lparr>tree := (l, File bytes) # tree fs\<rparr>)"
  using assms by (auto simp: write_text_def split: option.splits if_splits)

lemma write_text_None:
  assumes "write_text encode fs p text = (None, fs')"
  shows "\<exists>l bytes. resolve fs p = Some l \<and> node fs l \<noteq> Some Dir \<and> encode text = Some bytes
           \<and> fs' = fs\<lparr>tree := (l, File bytes) # tree fs\<rparr>"
  using assms by (auto simp: write_text_def split: option.splits if_splits)

lemma add_file_same_dirs:
  "node fs l \<noteq> Some Dir \<Longrightarrow> same_dirs fs (fs\<lparr>tree := (l, File content) # tree fs\<rparr>)"
  by (auto simp: same_dirs_def node_add)

lemma add_file_extends:
  "node fs l \<noteq> Some Dir \<Longrightarrow> extends fs (fs\<lparr>tree := (l, File content) # tree fs\<rparr>)"
  by (auto simp: extends_def node_add)

lemma write_text_extends: "write_text encode fs p text = (r, fs') \<Longrightarrow> extends fs fs'"
  by (auto dest!: write_text_effect simp: add_file_extends)

lemma write_text_same_dirs: "write_text encode fs p text = (r, fs') \<Longrightarrow> same_dirs fs fs'"
  by (auto dest!: write_text_effect simp: add_file_same_dirs)

lemma keeps_refl [simp]: "keeps fs fs"
  by (simp add: keeps_def)

lemma keeps_trans: "keeps a b \<Longrightarrow> keeps b c \<Longrightarrow> keeps a c"
  unfolding keeps_def by metis

lemma keeps_extends: "keeps fs fs' \<Longrightarrow> extends fs fs'"
  by (auto simp: keeps_def extends_def)

lemma keeps_add_dir: "node fs k = None \<Longrightarrow> keeps fs (fs\<lparr>tree := (k, Dir) # tree fs\<rparr>)"
  by (auto simp: keeps_def node_add)

lemma make_walk_keeps: "make_walk fs cur cs = (None, fs') \<Longrightarrow> keeps fs fs'"
proof (induction cs arbitrary: fs cur)
  case Nil
  then show ?case by simp
next
  case (Cons c cs)
  show ?case
  proof (cases "c = [] \<or> c = ''.'' \<or> c = ''..''")
    case True
    with Cons show ?thesis by (auto split: if_splits)
  next
    case False
    show ?thesis
    proof (cases "node fs (cur @ [c])")
      case None
      with False Cons.prems
      have "make_walk (fs\<lparr>tree := (cur @ [c], Dir) # tree fs\<rparr>) (cur @ [c]) cs = (None, fs')"
        by (auto split: if_splits)
      from Cons.IH[OF this] keeps_add_dir[OF None] show ?thesis
        by (rule keeps_trans[rotated])
    next
      case (Some e)
      with False Cons show ?thesis by (cases e) (auto split: if_splits)
    qed
  qed
qed

lemma makedirs_keeps: "makedirs fs p = (None, fs') \<Longrightarrow> keeps fs fs'"
  by (auto simp: makedirs_def dest: make_walk_keeps split: if_splits)

lemma read_file_keeps:
  assumes "keeps fs fs'" and "read_file fs p = Inr content"
  shows "read_file fs' p = Inr content"
proof -
  from assms(2) obtain l where l: "resolve fs p = Some l" "node fs l = Some (File content)"
    by (auto simp: read_file_def split: option.splits entry.splits)
  from resolve_extends[OF keeps_extends[OF assms(1)] l(1)] l(2) assms(1) show ?thesis
    by (simp add: read_file_def keeps_def)
qed

lemma read_text_keeps:
  assumes "keeps fs fs'" and "read_text decode fs p = Inr content"
  shows "read_text decode fs' p = Inr content"
  using assms by (auto simp: read_text_Inr dest: read_file_keeps)

section \<open>Properties of make-dirs\<close>
















section \<open>Properties of make-cards\<close>

lemma py_path_join_strs [simp]:
  "py_path_join (JStr a) [JStr b] = Inr (path_join a [b])"
  "py_path_join (JStr a) [JStr b, JStr c, JStr d] = Inr (path_join a [b, c, d])"
  by (simp_all add: py_path_join_def)

lemma py_path_join_Inr_str:
  "py_path_join (JStr a) [x] = Inr p \<Longrightarrow> \<exists>name. x = JStr name \<and> p = path_join a [name]"
  by (cases x) (auto simp: py_path_join_def)

lemma copy_body_effect:
  assumes "copy_body decode encode skeleton_path target_path dataset_name x w = (None, w')"
  shows "\<exists>name content l bytes. x = JStr name
      \<and> read_text decode (files w) (path_join skeleton_path [name]) = Inr content
      \<and> resolve (files w)
            (path_join target_path [py_replace name ''skeleton'' dataset_name]) = Some l
      \<and> node (files w) l \<noteq> Some Dir
      \<and> encode (py_replace content ''$process'' dataset_name) = Some bytes
      \<and> w' = w\<lparr>files := (files w)\<lparr>tree := (l, File bytes) # tree (files w)\<rparr>\<rparr>"
proof -
  from assms obtain src where src: "py_path_join (JStr skeleton_path) [x] = Inr src"
    by (auto simp: copy_body_def attempt_None)
  from py_path_join_Inr_str[OF src] obtain name where
    x: "x = JStr name" and s: "src = path_join skeleton_path [name]" by blast
  from assms src x s obtain content where
    rd: "read_text decode (files w) (path_join skeleton_path [name]) = Inr content"
    by (auto simp: copy_body_def attempt_None Let_def)
  obtain r fs' where
    wr: "write_text encode (files w)
               (path_join target_path [py_replace name ''skeleton'' dataset_name])
               (py_replace content ''$process'' dataset_name) = (r, fs')"
    by (cases "write_text encode (files w)
               (path_join target_path [py_replace name ''skeleton'' dataset_name])
               (py_replace content ''$process'' dataset_name)") blast
  with assms src x s rd have "r = None" and w': "w' = w\<lparr>files := fs'\<rparr>"
    by (auto simp: copy_body_def Let_def)
  with wr have "write_text encode (files w)
               (path_join target_path [py_replace name ''skeleton'' dataset_name])
               (py_replace content ''$process'' dataset_name) = (None, fs')"
    by simp
  from write_text_None[OF this] x rd w' show ?thesis by blast
qed

lemma copy_body_same_dirs:
  assumes "copy_body decode encode skeleton_path target_path dataset_name x w = (None, w')"
  shows "same_dirs (files w) (files w')" and "extends (files w) (files w')"
  using copy_body_effect[OF assms] by (auto simp: add_file_same_dirs add_file_extends)

lemma copy_loop_same_dirs:
  assumes "for_each (copy_body decode encode skeleton_path target_path dataset_name) xs w = (None, w')"
  shows "same_dirs (files w) (files w')"
  using for_each_establish[OF assms,
      where le = "\<lambda>a b. same_dirs (files a) (files b)" and Q = "\<lambda>x s. True"]
  by (auto dest: copy_body_same_dirs intro: same_dirs_trans)


text \<open>The copying loop changes the table only at the destinations of the listed files.\<close>

lemma copy_loop_frame:
  assumes "for_each (copy_body decode encode skeleton_path target_path dataset_name) xs w = (None, w')"
    and "\<And>n. JStr n \<in> set xs \<Longrightarrow>
           resolve (files w) (path_join target_path [py_replace n ''skeleton'' dataset_name]) \<noteq> Some l"
  shows "node (files w') l = node (files w) l"
  using assms
proof (induction xs arbitrary: w)
  case Nil
  then show ?case by simp
next
  case (Cons x xs)
  from Cons.prems(1)[unfolded for_each_Cons_None] obtain w1 where
    first: "copy_body decode encode skeleton_path target_path dataset_name x w = (None, w1)"
    and rest: "for_each (copy_body decode encode skeleton_path target_path dataset_name) xs w1 = (None, w')"
    by blast
  from copy_body_effect[OF first] obtain name bytes l0 where
    x: "x = JStr name"
    and l0: "resolve (files w)
            (path_join target_path [py_replace name ''skeleton'' dataset_name]) = Some l0"
    and w1: "w1 = w\<lparr>files := (files w)\<lparr>tree := (l0, File bytes) # tree (files w)\<rparr>\<rparr>"
    by blast
  from Cons.prems(2)[of name] x l0 have "l0 \<noteq> l" by auto
  then have one: "node (files w1) l = node (files w) l"
    by (simp add: w1 node_add)
  have res: "\<And>p. resolve (files w1) p = resolve (files w) p"
    using copy_body_same_dirs(1)[OF first] by (rule resolve_same_dirs)
  have "node (files w') l = node (files w1) l"
    by (rule Cons.IH[OF rest]) (simp add: res Cons.prems(2))
  with one show ?case by simp
qed

text \<open>
  A listed file is copied when no file listed before it is written over its source and
  no file listed after it is written to its destination.
\<close>

lemma copy_loop_content:
  assumes "for_each (copy_body decode encode skeleton_path target_path dataset_name)
             (before @ JStr name # after) w = (None, w')"
    and "read_text decode (files w) (path_join skeleton_path [name]) = Inr content"
    and "\<And>other. JStr other \<in> set after \<Longrightarrow>
           resolve (files w) (path_join target_path [py_replace other ''skeleton'' dataset_name])
         \<noteq> resolve (files w) (path_join target_path [py_replace name ''skeleton'' dataset_name])"
    and "\<And>other. JStr other \<in> set before \<Longrightarrow>
           resolve (files w) (path_join target_path [py_replace other ''skeleton'' dataset_name])
         \<noteq> resolve (files w) (path_join skeleton_path [name])"
  shows "\<exists>bytes. encode (py_replace content ''$process'' dataset_name) = Some bytes
           \<and> read_file (files w') (path_join target_path [py_replace name ''skeleton'' dataset_name])
               = Inr bytes"
  using assms
proof (induction before arbitrary: w)
  case Nil
  let ?dst = "\<lambda>n. path_join target_path [py_replace n ''skeleton'' dataset_name]"
  from Nil.prems(1)
  have "for_each (copy_body decode encode skeleton_path target_path dataset_name)
          (JStr name # after) w = (None, w')"
    by simp
  from this[unfolded for_each_Cons_None] obtain w1 where
    first: "copy_body decode encode skeleton_path target_path dataset_name (JStr name) w = (None, w1)"
    and rest: "for_each (copy_body decode encode skeleton_path target_path dataset_name) after w1 = (None, w')"
    by blast
  from copy_body_effect[OF first] Nil.prems(2) obtain l0 bytes where
    l0: "resolve (files w) (?dst name) = Some l0"
    and nd0: "node (files w) l0 \<noteq> Some Dir"
    and enc: "encode (py_replace content ''$process'' dataset_name) = Some bytes"
    and w1: "w1 = w\<lparr>files := (files w)\<lparr>tree := (l0, File bytes) # tree (files w)\<rparr>\<rparr>"
    by auto
  have res: "\<And>p. resolve (files w1) p = resolve (files w) p"
    using copy_body_same_dirs(1)[OF first] by (rule resolve_same_dirs)
  have res': "\<And>p. resolve (files w') p = resolve (files w1) p"
    using copy_loop_same_dirs[OF rest] by (rule resolve_same_dirs)
  from nd0 have l0_ne: "l0 \<noteq> []" by auto
  have "node (files w1) l0 = Some (File bytes)"
    using l0_ne by (simp add: w1 node_add)
  moreover have "node (files w') l0 = node (files w1) l0"
  proof (rule copy_loop_frame[OF rest])
    fix n assume n: "JStr n \<in> set after"
    with Nil.prems(3)[of n] l0 show "resolve (files w1) (?dst n) \<noteq> Some l0"
      by (simp add: res)
  qed
  moreover have "resolve (files w') (?dst name) = Some l0"
    using l0 by (simp add: res res')
  ultimately have "read_file (files w') (?dst name) = Inr bytes"
    by (simp add: read_file_def)
  with enc show ?case by blast
next
  case (Cons x before)
  let ?dst = "\<lambda>n. path_join target_path [py_replace n ''skeleton'' dataset_name]"
  let ?src = "path_join skeleton_path [name]"
  from Cons.prems(1)
  have "for_each (copy_body decode encode skeleton_path target_path dataset_name)
          (x # (before @ JStr name # after)) w = (None, w')"
    by simp
  from this[unfolded for_each_Cons_None] obtain w1 where
    first: "copy_body decode encode skeleton_path target_path dataset_name x w = (None, w1)"
    and rest: "for_each (copy_body decode encode skeleton_path target_path dataset_name)
                 (before @ JStr name # after) w1 = (None, w')"
    by blast
  from copy_body_effect[OF first] obtain n0 l0 bytes0 where
    x: "x = JStr n0"
    and l0: "resolve (files w) (?dst n0) = Some l0"
    and nd0: "node (files w) l0 \<noteq> Some Dir"
    and w1: "w1 = w\<lparr>files := (files w)\<lparr>tree := (l0, File bytes0) # tree (files w)\<rparr>\<rparr>"
    by blast
  have res: "\<And>p. resolve (files w1) p = resolve (files w) p"
    using copy_body_same_dirs(1)[OF first] by (rule resolve_same_dirs)
  from Cons.prems(2) obtain raw decoded ls where
    ls: "resolve (files w) ?src = Some ls" "node (files w) ls = Some (File raw)"
    and dec: "decode raw = Some decoded" "content = universal_newlines decoded"
    by (auto simp: read_text_Inr read_file_def split: option.splits entry.splits)
  from Cons.prems(4)[of n0] x l0 ls(1) have "l0 \<noteq> ls" by auto
  with ls(2) have "node (files w1) ls = Some (File raw)"
    by (auto simp: w1 node_add)
  with ls(1) dec have rd1: "read_text decode (files w1) ?src = Inr content"
    by (simp add: read_text_Inr read_file_def res)
  show ?case
    by (rule Cons.IH[OF rest rd1]) (simp_all add: res Cons.prems(3,4))
qed

lemma make_cards_None:
  assumes "make_cards decode encode config generator process dataset_name True w = (None, w')"
  shows "\<exists>gens paths cards_dir skeletons_dir target_path skeleton_path gen_info skeleton_files skels w2.
      py_getitem config ''generators'' = Inr gens \<and> py_in generator gens = Inr True
    \<and> py_getitem config ''paths'' = Inr paths
    \<and> py_getitem paths ''cards_dir'' = Inr cards_dir
    \<and> py_getitem paths ''skeletons_dir'' = Inr skeletons_dir
    \<and> py_path_join cards_dir [JStr generator, JStr process, JStr dataset_name] = Inr target_path
    \<and> py_path_join skeletons_dir [JStr generator] = Inr skeleton_path
    \<and> \<not> fs_exists (files w) target_path \<and> fs_exists (files w) skeleton_path
    \<and> py_getitem gens generator = Inr gen_info
    \<and> py_get gen_info ''skeleton_files'' (JArr []) = Inr skeleton_files
    \<and> py_iter skeleton_files = Inr skels
    \<and> for_each (plan_body skeleton_path target_path dataset_name) skels
         (say (CreatingCardDirectory target_path) w) = (None, w2)
    \<and> (\<exists>fs2 w3. makedirs (files w2) target_path = (None, fs2)
               \<and> for_each (copy_body decode encode skeleton_path target_path dataset_name) skels
                    (w2\<lparr>files := fs2\<rparr>) = (None, w3)
               \<and> w' = say (CardDirectoryCreated target_path) w3)"
  using assms
  by (auto simp: make_cards_def attempt_None Let_def case_loop_None case_step_None
        split: if_splits)









text \<open>
  C4, under its conditions. When \<^verbatim>\<open>make-cards\<close> with the perform flag completes, take a
  listed skeleton filename whose source file can be read as text beforehand, such that
  no filename listed after it has the same destination and no filename listed before it
  has that source file as its destination. Then the destination (the filename with
  \<^verbatim>\<open>skeleton\<close> replaced by the dataset name, inside the target directory) holds the
  encoding of the source's text with every \<^verbatim>\<open>$process\<close> replaced by the dataset name,
  where the source's text is its decoded content with every line end read as a line
  feed; and whatever else changed in the file system is a directory that was created or
  the destination of a listed filename.
\<close>

theorem make_cards_copies:
  assumes run: "make_cards decode encode config generator process dataset_name True w = (None, w')"
    and paths: "py_getitem config ''paths'' = Inr paths"
      "py_getitem paths ''cards_dir'' = Inr (JStr cards_dir)"
      "py_getitem paths ''skeletons_dir'' = Inr (JStr skeletons_dir)"
    and gens: "py_getitem config ''generators'' = Inr gens"
      "py_getitem gens generator = Inr gen_info"
      "py_get gen_info ''skeleton_files'' (JArr []) = Inr skeleton_files"
      "py_iter skeleton_files = Inr skels"
  shows "(\<forall>before name after content.
            skels = before @ JStr name # after
          \<and> read_text decode (files w) (path_join (path_join skeletons_dir [generator]) [name])
              = Inr content
          \<and> (\<forall>other. JStr other \<in> set after \<longrightarrow>
                resolve (files w') (path_join (path_join cards_dir [generator, process, dataset_name])
                                     [py_replace other ''skeleton'' dataset_name])
              \<noteq> resolve (files w') (path_join (path_join cards_dir [generator, process, dataset_name])
                                     [py_replace name ''skeleton'' dataset_name]))
          \<and> (\<forall>other. JStr other \<in> set before \<longrightarrow>
                resolve (files w') (path_join (path_join cards_dir [generator, process, dataset_name])
                                     [py_replace other ''skeleton'' dataset_name])
              \<noteq> resolve (files w') (path_join (path_join skeletons_dir [generator]) [name]))
          \<longrightarrow> (\<exists>bytes. encode (py_replace content ''$process'' dataset_name) = Some bytes
                 \<and> read_file (files w') (path_join (path_join cards_dir [generator, process, dataset_name])
                                     [py_replace name ''skeleton'' dataset_name])
                     = Inr bytes))
       \<and> (\<forall>l. node (files w') l \<noteq> node (files w) l \<longrightarrow>
              node (files w') l = Some Dir
            \<or> (\<exists>name. JStr name \<in> set skels
                 \<and> resolve (files w') (path_join (path_join cards_dir [generator, process, dataset_name])
                                     [py_replace name ''skeleton'' dataset_name]) = Some l))"
proof -
  let ?tp = "path_join cards_dir [generator, process, dataset_name]"
  let ?sp = "path_join skeletons_dir [generator]"
  let ?dst = "\<lambda>n. path_join ?tp [py_replace n ''skeleton'' dataset_name]"
  from make_cards_None[OF run] paths gens
  obtain w2 fs2 w3 where
    plan: "for_each (plan_body ?sp ?tp dataset_name) skels
         (say (CreatingCardDirectory ?tp) w) = (None, w2)"
    and mk: "makedirs (files w2) ?tp = (None, fs2)"
    and copy: "for_each (copy_body decode encode ?sp ?tp dataset_name) skels (w2\<lparr>files := fs2\<rparr>) = (None, w3)"
    and w': "w' = say (CardDirectoryCreated ?tp) w3"
    by auto
  from plan_loop_files[OF plan] have w2: "files w2 = files w" by simp
  from makedirs_keeps[OF mk] w2 have keep: "keeps (files w) fs2" by simp
  have res: "\<And>p. resolve (files w') p = resolve fs2 p"
    using copy_loop_same_dirs[OF copy] by (simp add: w' resolve_same_dirs)
  have content: "\<exists>bytes. encode (py_replace content ''$process'' dataset_name) = Some bytes
                 \<and> read_file (files w') (?dst name) = Inr bytes"
    if listed: "skels = before @ JStr name # after"
      and src: "read_text decode (files w) (path_join ?sp [name]) = Inr content"
      and h1: "\<forall>other. JStr other \<in> set after \<longrightarrow>
                resolve (files w') (?dst other) \<noteq> resolve (files w') (?dst name)"
      and h2: "\<forall>other. JStr other \<in> set before \<longrightarrow>
                resolve (files w') (?dst other) \<noteq> resolve (files w') (path_join ?sp [name])"
    for before name after content
  proof -
    have "\<exists>bytes. encode (py_replace content ''$process'' dataset_name) = Some bytes
                 \<and> read_file (files w3) (?dst name) = Inr bytes"
    proof (rule copy_loop_content[OF copy[unfolded listed]])
      show "read_text decode (files (w2\<lparr>files := fs2\<rparr>)) (path_join ?sp [name]) = Inr content"
        using read_text_keeps[OF keep src] by simp
    next
      fix other assume "JStr other \<in> set after"
      with h1 show "resolve (files (w2\<lparr>files := fs2\<rparr>)) (?dst other)
          \<noteq> resolve (files (w2\<lparr>files := fs2\<rparr>)) (?dst name)"
        by (simp add: res)
    next
      fix other assume "JStr other \<in> set before"
      with h2 show "resolve (files (w2\<lparr>files := fs2\<rparr>)) (?dst other)
          \<noteq> resolve (files (w2\<lparr>files := fs2\<rparr>)) (path_join ?sp [name])"
        by (simp add: res)
    qed
    then show ?thesis by (simp add: w')
  qed
  have frame: "node (files w') l = Some Dir
            \<or> (\<exists>name. JStr name \<in> set skels \<and> resolve (files w') (?dst name) = Some l)"
    if changed: "node (files w') l \<noteq> node (files w) l" for l
  proof (rule ccontr)
    assume neg: "\<not> ?thesis"
    then have "\<And>n. JStr n \<in> set skels \<Longrightarrow> resolve (files (w2\<lparr>files := fs2\<rparr>)) (?dst n) \<noteq> Some l"
      by (auto simp: res)
    from copy_loop_frame[OF copy this] have same: "node (files w') l = node fs2 l"
      by (simp add: w')
    with changed keep have "node fs2 l = Some Dir"
      by (auto simp: keeps_def)
    with same neg show False by simp
  qed
  from content frame show ?thesis by blast
qed

text \<open>
  Without these conditions the property fails. Of two listed filenames with one
  destination the one listed first is lost: \<^verbatim>\<open>ttbar.dat\<close> holds the text of the second.
  The content is copied as text, not byte by byte: the source \<^verbatim>\<open>skeleton_run.dat\<close> ends
  with a carriage return and a line feed, its destination with a line feed only. And a
  listed file that is missing from the skeleton directory ends the run by an exception,
  after the target directory was created and before any destination file is written.
\<close>

theorem make_cards_copies_counterexample:
  "fst (make_cards ascii_codec ascii_codec clash_config ''mg'' ''tt'' ''ttbar'' True clash_world) = None
   \<and> py_in ''mg'' (JObj [(''mg'', JObj [(''skeleton_files'',
          JArr [JStr ''skeleton.dat'', JStr ''ttbar.dat'', JStr ''skeleton_run.dat''])])]) = Inr True
   \<and> read_file (files clash_world) (path_join (path_join ''skeletons'' [''mg'']) [''skeleton.dat''])
        = Inr ''first $process''
   \<and> py_replace ''skeleton.dat'' ''skeleton'' ''ttbar'' = ''ttbar.dat''
   \<and> py_replace ''first $process'' ''$process'' ''ttbar'' = ''first ttbar''
   \<and> read_file (files (snd (make_cards ascii_codec ascii_codec clash_config ''mg'' ''tt'' ''ttbar'' True clash_world)))
         (path_join (path_join ''cards'' [''mg'', ''tt'', ''ttbar''])
            [py_replace ''skeleton.dat'' ''skeleton'' ''ttbar''])
        = Inr ''second ttbar''
   \<and> read_file (files clash_world) (path_join (path_join ''skeletons'' [''mg'']) [''skeleton_run.dat''])
        = Inr (''run $process'' @ [CHR 0x0D, CHR 0x0A])
   \<and> py_replace (''run $process'' @ [CHR 0x0D, CHR 0x0A]) ''$process'' ''ttbar''
        = ''run ttbar'' @ [CHR 0x0D, CHR 0x0A]
   \<and> read_file (files (snd (make_cards ascii_codec ascii_codec clash_config ''mg'' ''tt'' ''ttbar'' True clash_world)))
         (path_join (path_join ''cards'' [''mg'', ''tt'', ''ttbar''])
            [py_replace ''skeleton_run.dat'' ''skeleton'' ''ttbar''])
        = Inr (''run ttbar'' @ [CHR 0x0A])
   \<and> fst (make_cards ascii_codec ascii_codec clash_config ''mg'' ''tt'' ''ttbar'' True bare_world) = Some OSError
   \<and> fs_isdir (files (snd (make_cards ascii_codec ascii_codec clash_config ''mg'' ''tt'' ''ttbar'' True bare_world)))
         (path_join ''cards'' [''mg'', ''tt'', ''ttbar''])
   \<and> \<not> fs_exists (files (snd (make_cards ascii_codec ascii_codec clash_config ''mg'' ''tt'' ''ttbar'' True bare_world)))
         (path_join (path_join ''cards'' [''mg'', ''tt'', ''ttbar''])
            [py_replace ''skeleton.dat'' ''skeleton'' ''ttbar''])"
proof -
  have a: "fst (make_cards ascii_codec ascii_codec clash_config ''mg'' ''tt'' ''ttbar'' True clash_world) = None"
    by code_simp
  have b: "py_in ''mg'' (JObj [(''mg'', JObj [(''skeleton_files'',
          JArr [JStr ''skeleton.dat'', JStr ''ttbar.dat'', JStr ''skeleton_run.dat''])])]) = Inr True"
    by code_simp
  have c: "read_file (files clash_world) (path_join (path_join ''skeletons'' [''mg'']) [''skeleton.dat''])
        = Inr ''first $process''"
    by code_simp
  have d: "py_replace ''skeleton.dat'' ''skeleton'' ''ttbar'' = ''ttbar.dat''"
    by code_simp
  have e: "py_replace ''first $process'' ''$process'' ''ttbar'' = ''first ttbar''"
    by code_simp
  have f: "read_file (files (snd (make_cards ascii_codec ascii_codec clash_config ''mg'' ''tt'' ''ttbar'' True clash_world)))
         (path_join (path_join ''cards'' [''mg'', ''tt'', ''ttbar''])
            [py_replace ''skeleton.dat'' ''skeleton'' ''ttbar''])
        = Inr ''second ttbar''"
    by code_simp
  have g: "read_file (files clash_world) (path_join (path_join ''skeletons'' [''mg'']) [''skeleton_run.dat''])
        = Inr (''run $process'' @ [CHR 0x0D, CHR 0x0A])"
    by code_simp
  have h: "py_replace (''run $process'' @ [CHR 0x0D, CHR 0x0A]) ''$process'' ''ttbar''
        = ''run ttbar'' @ [CHR 0x0D, CHR 0x0A]"
    by code_simp
  have i: "read_file (files (snd (make_cards ascii_codec ascii_codec clash_config ''mg'' ''tt'' ''ttbar'' True clash_world)))
         (path_join (path_join ''cards'' [''mg'', ''tt'', ''ttbar''])
            [py_replace ''skeleton_run.dat'' ''skeleton'' ''ttbar''])
        = Inr (''run ttbar'' @ [CHR 0x0A])"
    by code_simp
  have j: "fst (make_cards ascii_codec ascii_codec clash_config ''mg'' ''tt'' ''ttbar'' True bare_world) = Some OSError"
    by code_simp
  have k: "fs_isdir (files (snd (make_cards ascii_codec ascii_codec clash_config ''mg'' ''tt'' ''ttbar'' True bare_world)))
         (path_join ''cards'' [''mg'', ''tt'', ''ttbar''])"
    by code_simp
  have l: "\<not> fs_exists (files (snd (make_cards ascii_codec ascii_codec clash_config ''mg'' ''tt'' ''ttbar'' True bare_world)))
         (path_join (path_join ''cards'' [''mg'', ''tt'', ''ttbar''])
            [py_replace ''skeleton.dat'' ''skeleton'' ''ttbar''])"
    by code_simp
  show ?thesis by (intro conjI) (fact a b c d e f g h i j k l)+
qed

theorem make_cards_copies_witness:
  "fst (make_cards ascii_codec ascii_codec clash_config ''mg'' ''tt'' ''ttbar'' True clash_world) = None
   \<and> read_text ascii_codec (files clash_world) (path_join (path_join ''skeletons'' [''mg'']) [''ttbar.dat''])
        = Inr ''second $process''
   \<and> resolve (files (snd (make_cards ascii_codec ascii_codec clash_config ''mg'' ''tt'' ''ttbar'' True clash_world)))
         (path_join (path_join ''cards'' [''mg'', ''tt'', ''ttbar''])
            [py_replace ''skeleton_run.dat'' ''skeleton'' ''ttbar''])
       \<noteq> resolve (files (snd (make_cards ascii_codec ascii_codec clash_config ''mg'' ''tt'' ''ttbar'' True clash_world)))
           (path_join (path_join ''cards'' [''mg'', ''tt'', ''ttbar''])
              [py_replace ''ttbar.dat'' ''skeleton'' ''ttbar''])
   \<and> resolve (files (snd (make_cards ascii_codec ascii_codec clash_config ''mg'' ''tt'' ''ttbar'' True clash_world)))
         (path_join (path_join ''cards'' [''mg'', ''tt'', ''ttbar''])
            [py_replace ''skeleton.dat'' ''skeleton'' ''ttbar''])
       \<noteq> resolve (files (snd (make_cards ascii_codec ascii_codec clash_config ''mg'' ''tt'' ''ttbar'' True clash_world)))
           (path_join (path_join ''skeletons'' [''mg'']) [''ttbar.dat''])
   \<and> resolve (files (snd (make_cards ascii_codec ascii_codec clash_config ''mg'' ''tt'' ''ttbar'' True clash_world)))
         (path_join (path_join ''cards'' [''mg'', ''tt'', ''ttbar''])
            [py_replace ''skeleton.dat'' ''skeleton'' ''ttbar''])
       = resolve (files (snd (make_cards ascii_codec ascii_codec clash_config ''mg'' ''tt'' ''ttbar'' True clash_world)))
           (path_join (path_join ''cards'' [''mg'', ''tt'', ''ttbar''])
              [py_replace ''ttbar.dat'' ''skeleton'' ''ttbar''])
   \<and> ascii_codec (py_replace ''second $process'' ''$process'' ''ttbar'') = Some ''second ttbar''
   \<and> read_file (files (snd (make_cards ascii_codec ascii_codec clash_config ''mg'' ''tt'' ''ttbar'' True clash_world)))
         (path_join (path_join ''cards'' [''mg'', ''tt'', ''ttbar''])
            [py_replace ''ttbar.dat'' ''skeleton'' ''ttbar''])
        = Inr ''second ttbar''"
proof -
  let ?w' = "snd (make_cards ascii_codec ascii_codec clash_config ''mg'' ''tt'' ''ttbar'' True clash_world)"
  let ?info = "JObj [(''skeleton_files'',
                  JArr [JStr ''skeleton.dat'', JStr ''ttbar.dat'', JStr ''skeleton_run.dat''])]"
  have f: "fst (make_cards ascii_codec ascii_codec clash_config ''mg'' ''tt'' ''ttbar'' True clash_world) = None"
    by code_simp
  then have run: "make_cards ascii_codec ascii_codec clash_config ''mg'' ''tt'' ''ttbar'' True clash_world = (None, ?w')"
    by (metis prod.collapse)
  have p: "py_getitem clash_config ''paths''
      = Inr (JObj [(''cards_dir'', JStr ''cards''), (''skeletons_dir'', JStr ''skeletons'')])"
    by code_simp
  have cd: "py_getitem (JObj [(''cards_dir'', JStr ''cards''), (''skeletons_dir'', JStr ''skeletons'')])
      ''cards_dir'' = Inr (JStr ''cards'')"
    by code_simp
  have sd: "py_getitem (JObj [(''cards_dir'', JStr ''cards''), (''skeletons_dir'', JStr ''skeletons'')])
      ''skeletons_dir'' = Inr (JStr ''skeletons'')"
    by code_simp
  have g: "py_getitem clash_config ''generators'' = Inr (JObj [(''mg'', ?info)])"
    by code_simp
  have gi: "py_getitem (JObj [(''mg'', ?info)]) ''mg'' = Inr ?info"
    by code_simp
  have sf: "py_get ?info ''skeleton_files'' (JArr [])
      = Inr (JArr [JStr ''skeleton.dat'', JStr ''ttbar.dat'', JStr ''skeleton_run.dat''])"
    by code_simp
  have it: "py_iter (JArr [JStr ''skeleton.dat'', JStr ''ttbar.dat'', JStr ''skeleton_run.dat''])
      = Inr [JStr ''skeleton.dat'', JStr ''ttbar.dat'', JStr ''skeleton_run.dat'']"
    by code_simp
  have listed: "[JStr ''skeleton.dat'', JStr ''ttbar.dat'', JStr ''skeleton_run.dat'']
      = [JStr ''skeleton.dat''] @ JStr ''ttbar.dat'' # [JStr ''skeleton_run.dat'']"
    by simp
  have src: "read_text ascii_codec (files clash_world) (path_join (path_join ''skeletons'' [''mg'']) [''ttbar.dat''])
        = Inr ''second $process''"
    by code_simp
  have later: "resolve (files ?w')
         (path_join (path_join ''cards'' [''mg'', ''tt'', ''ttbar''])
            [py_replace ''skeleton_run.dat'' ''skeleton'' ''ttbar''])
       \<noteq> resolve (files ?w')
           (path_join (path_join ''cards'' [''mg'', ''tt'', ''ttbar''])
              [py_replace ''ttbar.dat'' ''skeleton'' ''ttbar''])"
    by code_simp
  have earlier: "resolve (files ?w')
         (path_join (path_join ''cards'' [''mg'', ''tt'', ''ttbar''])
            [py_replace ''skeleton.dat'' ''skeleton'' ''ttbar''])
       \<noteq> resolve (files ?w') (path_join (path_join ''skeletons'' [''mg'']) [''ttbar.dat''])"
    by code_simp
  have same: "resolve (files ?w')
         (path_join (path_join ''cards'' [''mg'', ''tt'', ''ttbar''])
            [py_replace ''skeleton.dat'' ''skeleton'' ''ttbar''])
       = resolve (files ?w')
           (path_join (path_join ''cards'' [''mg'', ''tt'', ''ttbar''])
              [py_replace ''ttbar.dat'' ''skeleton'' ''ttbar''])"
    by code_simp
  have enc: "ascii_codec (py_replace ''second $process'' ''$process'' ''ttbar'') = Some ''second ttbar''"
    by code_simp
  have h1: "\<forall>other. JStr other \<in> set [JStr ''skeleton_run.dat''] \<longrightarrow>
                resolve (files ?w') (path_join (path_join ''cards'' [''mg'', ''tt'', ''ttbar''])
                                     [py_replace other ''skeleton'' ''ttbar''])
              \<noteq> resolve (files ?w') (path_join (path_join ''cards'' [''mg'', ''tt'', ''ttbar''])
                                     [py_replace ''ttbar.dat'' ''skeleton'' ''ttbar''])"
    using later by simp
  have h2: "\<forall>other. JStr other \<in> set [JStr ''skeleton.dat''] \<longrightarrow>
                resolve (files ?w') (path_join (path_join ''cards'' [''mg'', ''tt'', ''ttbar''])
                                     [py_replace other ''skeleton'' ''ttbar''])
              \<noteq> resolve (files ?w') (path_join (path_join ''skeletons'' [''mg'']) [''ttbar.dat''])"
    using earlier by simp
  from make_cards_copies[OF run p cd sd g gi sf it] listed src h1 h2
  have "\<exists>bytes. ascii_codec (py_replace ''second $process'' ''$process'' ''ttbar'') = Some bytes
          \<and> read_file (files ?w') (path_join (path_join ''cards'' [''mg'', ''tt'', ''ttbar''])
                                     [py_replace ''ttbar.dat'' ''skeleton'' ''ttbar'']) = Inr bytes"
    by blast
  with enc have r: "read_file (files ?w') (path_join (path_join ''cards'' [''mg'', ''tt'', ''ttbar''])
                                     [py_replace ''ttbar.dat'' ''skeleton'' ''ttbar'']) = Inr ''second ttbar''"
    by auto
  show ?thesis
    by (intro conjI) (fact f src later earlier same enc r)+
qed

end
